theory Spec2Isabelle
  imports Complex_Main
begin

section \<open>Exceptions\<close>

text \<open>
  Every exception the modelled code can raise is a value. \<open>TargetNotSet\<close> and
  \<open>AssertionError\<close> carry the message of the source; the others are the exceptions
  NumPy raises on a shape mismatch (\<open>ValueError\<close>), on arithmetic with \<open>None\<close>
  (\<open>TypeError\<close>) and on a bad index array (\<open>IndexError\<close>).
\<close>

datatype error =
    TargetNotSet string
  | AssertionError string
  | ValueError
  | TypeError
  | IndexError

definition and_then :: "error + 'a \<Rightarrow> ('a \<Rightarrow> error + 'b) \<Rightarrow> error + 'b" where
  "and_then r f = (case r of Inl e \<Rightarrow> Inl e | Inr x \<Rightarrow> f x)"

section \<open>NumPy arrays\<close>

text \<open>
  A one-dimensional array of floats is a \<open>real list\<close>: arithmetic is exact, rounding is
  not modelled. A two-dimensional array carries its shape, as \<open>ndarray.shape\<close> does, so
  that an array with no row still has a column count.
\<close>

record array2d =
  nrows :: nat
  ncols :: nat
  rows :: "real list list"

definition array2d_of :: "nat \<Rightarrow> nat \<Rightarrow> (nat \<Rightarrow> nat \<Rightarrow> real) \<Rightarrow> array2d" where
  "array2d_of r c f = \<lparr>nrows = r, ncols = c, rows = map (\<lambda>i. map (f i) [0..<c]) [0..<r]\<rparr>"

definition entry :: "array2d \<Rightarrow> nat \<Rightarrow> nat \<Rightarrow> real" where
  "entry A i j = rows A ! i ! j"

definition is_array2d :: "array2d \<Rightarrow> bool" where
  "is_array2d A \<longleftrightarrow>
     length (rows A) = nrows A \<and> list_all (\<lambda>r. length r = ncols A) (rows A)"

text \<open>\<open>np.diag(v)\<close> of a vector, \<open>np.eye(n)\<close>, \<open>A.T\<close>.\<close>

definition np_diag :: "real list \<Rightarrow> array2d" where
  "np_diag v = array2d_of (length v) (length v) (\<lambda>i j. if i = j then v ! i else 0)"

definition np_eye :: "nat \<Rightarrow> array2d" where
  "np_eye n = array2d_of n n (\<lambda>i j. if i = j then 1 else 0)"

definition np_transpose :: "array2d \<Rightarrow> array2d" where
  "np_transpose A = array2d_of (ncols A) (nrows A) (\<lambda>i j. entry A j i)"

text \<open>
  The operator \<open>@\<close> on two-dimensional and one-dimensional operands. The inner dimensions
  must agree, or NumPy raises \<open>ValueError\<close>.
\<close>

definition np_matmul :: "array2d \<Rightarrow> array2d \<Rightarrow> error + array2d" where
  "np_matmul A B =
     (if ncols A = nrows B
      then Inr (array2d_of (nrows A) (ncols B) (\<lambda>i j. \<Sum>k<ncols A. entry A i k * entry B k j))
      else Inl ValueError)"

definition np_matvec :: "array2d \<Rightarrow> real list \<Rightarrow> error + real list" where
  "np_matvec A x =
     (if ncols A = length x
      then Inr (map (\<lambda>i. \<Sum>k<ncols A. entry A i k * x ! k) [0..<nrows A])
      else Inl ValueError)"

definition np_vecmat :: "real list \<Rightarrow> array2d \<Rightarrow> error + real list" where
  "np_vecmat x B =
     (if length x = nrows B
      then Inr (map (\<lambda>j. \<Sum>k<nrows B. x ! k * entry B k j) [0..<ncols B])
      else Inl ValueError)"

definition np_vecvec :: "real list \<Rightarrow> real list \<Rightarrow> error + real" where
  "np_vecvec x y =
     (if length x = length y then Inr (\<Sum>k<length x. x ! k * y ! k) else Inl ValueError)"

text \<open>A scalar times an array, and the negation of a vector.\<close>

definition np_scale_vec :: "real \<Rightarrow> real list \<Rightarrow> real list" where
  "np_scale_vec s x = map (\<lambda>v. s * v) x"

definition np_scale :: "real \<Rightarrow> array2d \<Rightarrow> array2d" where
  "np_scale s A = array2d_of (nrows A) (ncols A) (\<lambda>i j. s * entry A i j)"

definition np_negative :: "real list \<Rightarrow> real list" where
  "np_negative x = map uminus x"

text \<open>
  The sum of two two-dimensional arrays, with NumPy's broadcasting: along each axis the
  lengths are equal or one of them is 1 (that operand is then repeated); otherwise
  \<open>ValueError\<close>.
\<close>

definition broadcast_len :: "nat \<Rightarrow> nat \<Rightarrow> nat option" where
  "broadcast_len a b =
     (if a = b then Some a else if a = 1 then Some b else if b = 1 then Some a else None)"

definition np_add :: "array2d \<Rightarrow> array2d \<Rightarrow> error + array2d" where
  "np_add A B =
     (case (broadcast_len (nrows A) (nrows B), broadcast_len (ncols A) (ncols B)) of
        (Some r, Some c) \<Rightarrow>
          Inr (array2d_of r c (\<lambda>i j.
            entry A (if nrows A = 1 then 0 else i) (if ncols A = 1 then 0 else j) +
            entry B (if nrows B = 1 then 0 else i) (if ncols B = 1 then 0 else j)))
      | _ \<Rightarrow> Inl ValueError)"

section \<open>The body task (pink/tasks/body\_task.py)\<close>

text \<open>
  The task object. \<open>gain\<close> is read by \<open>compute_task_dynamics\<close> as \<open>self.gain\<close>; it is an
  attribute of the base class \<open>Task\<close>, which is not among the sources, so it is a field
  here. The type \<open>'se3\<close> stands for \<open>pin.SE3\<close>.
\<close>

record 'se3 body_task =
  body :: string
  cost :: "real list"
  error_in_body :: "real list"
  lm_damping :: real
  transform_target_to_world :: "'se3 option"
  gain :: real

text \<open>
  The configured robot is the kinematics provider: it answers, for a body name, with the
  transform of the body to the world and with the body Jacobian, and it knows the
  dimension \<open>nv\<close> of the tangent space.
\<close>

record 'se3 configured_robot =
  robot_nv :: nat
  get_transform_body_to_world :: "string \<Rightarrow> 'se3"
  get_body_jacobian :: "string \<Rightarrow> array2d"

text \<open>The argument of a cost setter: \<open>Union[float, Sequence[float]]\<close>.\<close>

datatype cost_arg = Scalar real | Sequence "real list"

text \<open>
  \<open>self.cost[a:a+3] = value\<close>: a scalar fills the three entries, a sequence of length 3
  replaces them, a sequence of length 1 is broadcast, any other length raises
  \<open>ValueError\<close>.
\<close>

definition assign_slice3 :: "real list \<Rightarrow> nat \<Rightarrow> cost_arg \<Rightarrow> error + real list" where
  "assign_slice3 xs a v =
     (case v of
        Scalar c \<Rightarrow> Inr (take a xs @ replicate 3 c @ drop (a + 3) xs)
      | Sequence cs \<Rightarrow>
          if length cs = 3 then Inr (take a xs @ cs @ drop (a + 3) xs)
          else if length cs = 1 then Inr (take a xs @ replicate 3 (hd cs) @ drop (a + 3) xs)
          else Inl ValueError)"

definition cost_arg_ok :: "cost_arg \<Rightarrow> bool" where
  "cost_arg_ok v = (case v of Scalar c \<Rightarrow> 0 \<le> c | Sequence cs \<Rightarrow> list_all (\<lambda>c. 0 \<le> c) cs)"

definition set_position_cost :: "'se3 body_task \<Rightarrow> cost_arg \<Rightarrow> error + 'se3 body_task" where
  "set_position_cost self position_cost =
     (if \<not> cost_arg_ok position_cost then Inl (AssertionError [])
      else and_then (assign_slice3 (cost self) 0 position_cost)
             (\<lambda>c. Inr (self\<lparr>cost := c\<rparr>)))"

definition set_orientation_cost :: "'se3 body_task \<Rightarrow> cost_arg \<Rightarrow> error + 'se3 body_task" where
  "set_orientation_cost self orientation_cost =
     (if \<not> cost_arg_ok orientation_cost then Inl (AssertionError [])
      else and_then (assign_slice3 (cost self) 3 orientation_cost)
             (\<lambda>c. Inr (self\<lparr>cost := c\<rparr>)))"

text \<open>
  \<open>BodyTask.__init__\<close>. The last argument is the gain the base class provides.
\<close>

definition BodyTask_init ::
  "string \<Rightarrow> cost_arg \<Rightarrow> cost_arg \<Rightarrow> real \<Rightarrow> real \<Rightarrow> error + 'se3 body_task" where
  "BodyTask_init b position_cost orientation_cost lm g =
     (let self = \<lparr>body = b, cost = replicate 6 1, error_in_body = replicate 6 0,
                   lm_damping = lm, transform_target_to_world = None, gain = g\<rparr>
      in and_then (set_position_cost self position_cost)
           (\<lambda>self. set_orientation_cost self orientation_cost))"

definition set_target :: "'se3 body_task \<Rightarrow> 'se3 \<Rightarrow> 'se3 body_task" where
  "set_target self target = self\<lparr>transform_target_to_world := Some target\<rparr>"

text \<open>
  \<open>compute_error_in_body\<close>. The helper \<open>body_box_minus\<close> (pink/tasks/utils.py) is not
  among the sources: it is the first parameter. The method returns its value or raises,
  and it assigns \<open>self.error_in_body\<close>; the model returns the outcome together with the
  task object as the call leaves it.
\<close>

definition compute_error_in_body ::
  "('se3 \<Rightarrow> 'se3 \<Rightarrow> real list) \<Rightarrow> 'se3 body_task \<Rightarrow> 'se3 configured_robot
     \<Rightarrow> (error + real list) \<times> 'se3 body_task" where
  "compute_error_in_body body_box_minus self robot =
     (case transform_target_to_world self of
        None \<Rightarrow> (Inl (TargetNotSet (''no target set for body '' @ body self)), self)
      | Some target \<Rightarrow>
          (let transform_body_to_world = get_transform_body_to_world robot (body self);
               e = np_negative (body_box_minus target transform_body_to_world)
           in (Inr e, self\<lparr>error_in_body := e\<rparr>)))"

definition compute_task_dynamics ::
  "('se3 \<Rightarrow> 'se3 \<Rightarrow> real list) \<Rightarrow> 'se3 body_task \<Rightarrow> 'se3 configured_robot
     \<Rightarrow> (error + array2d \<times> real list) \<times> 'se3 body_task" where
  "compute_task_dynamics body_box_minus self robot =
     (let jacobian_in_body = get_body_jacobian robot (body self)
      in case compute_error_in_body body_box_minus self robot of
           (Inl err, self') \<Rightarrow> (Inl err, self')
         | (Inr e, self') \<Rightarrow> (Inr (jacobian_in_body, np_scale_vec (gain self') e), self'))"

text \<open>
  \<open>compute_qp_objective\<close>. In \<open>self.lm_damping * weighted_error @ weighted_error\<close> the
  operators \<open>*\<close> and \<open>@\<close> have the same precedence and associate to the left; in
  \<open>-weighted_error.T @ weighted_jacobian\<close> the unary minus binds tighter than \<open>@\<close>, and
  \<open>.T\<close> of a one-dimensional array is the array itself.
\<close>

definition compute_qp_objective ::
  "('se3 \<Rightarrow> 'se3 \<Rightarrow> real list) \<Rightarrow> 'se3 body_task \<Rightarrow> 'se3 configured_robot
     \<Rightarrow> (error + array2d \<times> real list) \<times> 'se3 body_task" where
  "compute_qp_objective body_box_minus self robot =
     (case compute_task_dynamics body_box_minus self robot of
        (Inl err, self') \<Rightarrow> (Inl err, self')
      | (Inr (jacobian, err), self') \<Rightarrow>
          (let weight = np_diag (cost self') in
           and_then (np_matmul weight jacobian) (\<lambda>weighted_jacobian.
           and_then (np_matvec weight err) (\<lambda>weighted_error.
           and_then (np_vecvec (np_scale_vec (lm_damping self') weighted_error) weighted_error)
             (\<lambda>mu.
           let eye_tg = np_eye (robot_nv robot) in
           and_then (np_matmul (np_transpose weighted_jacobian) weighted_jacobian) (\<lambda>JtJ.
           and_then (np_add JtJ (np_scale mu eye_tg)) (\<lambda>H.
           and_then (np_vecmat (np_negative weighted_error) weighted_jacobian) (\<lambda>c.
           Inr (H, c))))))),
           self'))"

section \<open>The robot model (pin.Model)\<close>

text \<open>
  Position and velocity limits are floats that may be infinite: a limit is a finite real,
  an infinity or NaN, compared and added as IEEE 754 does (rounding apart).
\<close>

datatype float64 = Finite real | PosInf | NegInf | NaN

fun fl_less :: "float64 \<Rightarrow> float64 \<Rightarrow> bool" where
  "fl_less (Finite a) (Finite b) = (a < b)"
| "fl_less (Finite a) PosInf = True"
| "fl_less NegInf (Finite b) = True"
| "fl_less NegInf PosInf = True"
| "fl_less a b = False"

fun fl_add :: "float64 \<Rightarrow> float64 \<Rightarrow> float64" where
  "fl_add (Finite a) (Finite b) = Finite (a + b)"
| "fl_add NaN b = NaN"
| "fl_add a NaN = NaN"
| "fl_add PosInf NegInf = NaN"
| "fl_add NegInf PosInf = NaN"
| "fl_add PosInf b = PosInf"
| "fl_add a PosInf = PosInf"
| "fl_add NegInf b = NegInf"
| "fl_add a NegInf = NegInf"

text \<open>
  A joint of the model: where its coordinates start in the configuration vector and in
  the tangent vector, and how many it has of each. The indices are integers: the code
  tests the sign of \<open>idx_q\<close>. The counts are natural numbers.
\<close>

record joint_model =
  idx_q :: int
  nq :: nat
  idx_v :: int
  nv :: nat

record pin_model =
  model_nv :: nat
  model_joints :: "joint_model list"
  upperPositionLimit :: "float64 list"
  lowerPositionLimit :: "float64 list"
  velocityLimit :: "float64 list"

section \<open>More of NumPy and Python\<close>

text \<open>
  An elementwise operation on two one-dimensional arrays, with broadcasting: equal
  lengths, or one operand of length 1; otherwise \<open>ValueError\<close>.
\<close>

definition np_elementwise :: "('a \<Rightarrow> 'b \<Rightarrow> 'c) \<Rightarrow> 'a list \<Rightarrow> 'b list \<Rightarrow> error + 'c list" where
  "np_elementwise f xs ys =
     (if length xs = length ys then Inr (map (\<lambda>(x, y). f x y) (zip xs ys))
      else if length xs = 1 then Inr (map (f (hd xs)) ys)
      else if length ys = 1 then Inr (map (\<lambda>x. f x (hd ys)) xs)
      else Inl ValueError)"

text \<open>\<open>xs[a:b]\<close> for \<open>0 \<le> a \<le> b\<close>: the slice is clipped to the array.\<close>

definition np_slice :: "'a list \<Rightarrow> nat \<Rightarrow> nat \<Rightarrow> 'a list" where
  "np_slice xs a b = drop a (take b xs)"

text \<open>\<open>range(a, b)\<close>.\<close>

definition py_range :: "int \<Rightarrow> int \<Rightarrow> int list" where
  "py_range a b = map (\<lambda>k. a + int k) [0..<nat (b - a)]"

text \<open>
  \<open>a[idx]\<close> where \<open>idx = np.array(l)\<close> for a Python list \<open>l\<close> of integers. When \<open>l\<close> is
  empty, \<open>np.array(l)\<close> has dtype float64, and NumPy refuses an index array that is not
  of integer or boolean type with \<open>IndexError\<close>. Otherwise every index must lie in
  \<open>[-n, n)\<close>, a negative index counting from the end.
\<close>

definition index_ok :: "nat \<Rightarrow> int \<Rightarrow> bool" where
  "index_ok n i \<longleftrightarrow> - int n \<le> i \<and> i < int n"

definition index_pos :: "nat \<Rightarrow> int \<Rightarrow> nat" where
  "index_pos n i = nat (if i < 0 then i + int n else i)"

definition np_take :: "'a list \<Rightarrow> int list \<Rightarrow> error + 'a list" where
  "np_take a idx =
     (if idx = [] then Inl IndexError
      else if list_all (index_ok (length a)) idx
      then Inr (map (\<lambda>i. a ! index_pos (length a) i) idx)
      else Inl IndexError)"

definition np_take_rows :: "array2d \<Rightarrow> int list \<Rightarrow> error + array2d" where
  "np_take_rows A idx =
     (if idx = [] then Inl IndexError
      else if list_all (index_ok (nrows A)) idx
      then Inr \<lparr>nrows = length idx, ncols = ncols A,
                rows = map (\<lambda>i. rows A ! index_pos (nrows A) i) idx\<rparr>
      else Inl IndexError)"

text \<open>\<open>np.zeros(n)\<close>: a negative dimension raises \<open>ValueError\<close>.\<close>

definition np_zeros :: "int \<Rightarrow> error + real list" where
  "np_zeros n = (if n < 0 then Inl ValueError else Inr (replicate (nat n) 0))"

text \<open>\<open>np.linalg.norm(h)\<close> of a vector: the Euclidean norm.\<close>

definition np_linalg_norm :: "real list \<Rightarrow> real" where
  "np_linalg_norm h = sqrt (sum_list (map (\<lambda>x. x * x) h))"

text \<open>
  \<open>a - b\<close> where an operand may be \<open>None\<close>: an array minus \<open>None\<close>, or \<open>None\<close> minus an
  array, raises \<open>TypeError\<close>.
\<close>

definition np_subtract :: "real list option \<Rightarrow> real list option \<Rightarrow> error + real list" where
  "np_subtract a b =
     (case (a, b) of
        (Some x, Some y) \<Rightarrow> np_elementwise (\<lambda>u v. u - v) x y
      | _ \<Rightarrow> Inl TypeError)"

text \<open>\<open>np.concatenate\<close> of a list of vectors; an empty list raises \<open>ValueError\<close>.\<close>

definition np_concatenate :: "real list list \<Rightarrow> error + real list" where
  "np_concatenate xs = (if xs = [] then Inl ValueError else Inr (concat xs))"

text \<open>\<open>A[:3]\<close>, \<open>-A\<close> and \<open>np.hstack\<close> on two-dimensional arrays.\<close>

definition np_first_rows :: "nat \<Rightarrow> array2d \<Rightarrow> array2d" where
  "np_first_rows k A = \<lparr>nrows = min k (nrows A), ncols = ncols A, rows = take k (rows A)\<rparr>"

definition np_negative2d :: "array2d \<Rightarrow> array2d" where
  "np_negative2d A = array2d_of (nrows A) (ncols A) (\<lambda>i j. - entry A i j)"

definition np_hstack :: "array2d list \<Rightarrow> error + array2d" where
  "np_hstack As =
     (case As of
        [] \<Rightarrow> Inl ValueError
      | A # rest \<Rightarrow>
          if list_all (\<lambda>B. nrows B = nrows A) rest
          then Inr \<lparr>nrows = nrows A, ncols = sum_list (map ncols As),
                    rows = map (\<lambda>i. concat (map (\<lambda>B. rows B ! i) As)) [0..<nrows A]\<rparr>
          else Inl ValueError)"

section \<open>The bounded tangent space (pink/bounded\_tangent.py)\<close>

record bounded_tangent =
  dim :: nat
  indices :: "int list"
  joints :: "joint_model list"
  projection_matrix :: "array2d option"
  velocity_limit :: "float64 list option"

text \<open>
  \<open>has_configuration_limit\<close>, the first statement of \<open>__init__\<close>:
  \<open>np.logical_and(upper < 1e20, upper > lower + 1e-10)\<close>.
\<close>

definition has_configuration_limit :: "pin_model \<Rightarrow> error + bool list" where
  "has_configuration_limit model =
     (let below = map (\<lambda>u. fl_less u (Finite (10 ^ 20))) (upperPositionLimit model);
          raised = map (\<lambda>l. fl_add l (Finite (1 / 10 ^ 10))) (lowerPositionLimit model)
      in and_then (np_elementwise (\<lambda>u l. fl_less l u) (upperPositionLimit model) raised)
           (\<lambda>wide. np_elementwise (\<lambda>a b. a \<and> b) below wide))"

definition BoundedTangent_init :: "pin_model \<Rightarrow> error + bounded_tangent" where
  "BoundedTangent_init model =
     and_then (has_configuration_limit model) (\<lambda>has_limit.
     let joints = filter
           (\<lambda>joint. idx_q joint \<ge> 0 \<and>
              list_all (\<lambda>b. b)
                (np_slice has_limit (nat (idx_q joint)) (nat (idx_q joint + int (nq joint)))))
           (model_joints model);
         indices = concat (map (\<lambda>joint. py_range (idx_v joint) (idx_v joint + int (nv joint)))
                            joints);
         dim = length indices
     in
     and_then
       (if dim > 0
        then and_then (np_take_rows (np_eye (model_nv model)) indices) (\<lambda>m. Inr (Some m))
        else Inr None) (\<lambda>projection_matrix.
     and_then
       (if length joints > 0
        then and_then (np_take (velocityLimit model) indices) (\<lambda>v. Inr (Some v))
        else Inr None) (\<lambda>velocity_limit.
     Inr \<lparr>dim = dim, indices = indices, joints = joints,
          projection_matrix = projection_matrix, velocity_limit = velocity_limit\<rparr>)))"

text \<open>
  \<open>project\<close>. The assertion reads \<open>self.space.dim\<close>; the attribute \<open>space\<close> is not set by
  \<open>__init__\<close> and comes from the base class \<open>VectorSpace\<close>, which is not among the
  sources. Its dimension is the first parameter; the specification calls it
  \<open>tangent_dim\<close>, the dimension of the full tangent space.
\<close>

definition project :: "nat \<Rightarrow> bounded_tangent \<Rightarrow> real list \<Rightarrow> error + real list" where
  "project space_dim self v =
     (if length v \<noteq> space_dim then Inl (AssertionError ''Dimension mismatch'')
      else np_take v (indices self))"

section \<open>Eligible joints\<close>

text \<open>
  What the constructor of the bounded tangent space tests on a configuration coordinate
  \<open>k\<close>, and on a joint: the joint has a non-negative \<open>idx_q\<close> and each of its \<open>nq\<close>
  coordinates passes the test.
\<close>

definition coordinate_has_limit :: "pin_model \<Rightarrow> nat \<Rightarrow> bool" where
  "coordinate_has_limit model k \<longleftrightarrow>
     fl_less (upperPositionLimit model ! k) (Finite (10 ^ 20)) \<and>
     fl_less (fl_add (lowerPositionLimit model ! k) (Finite (1 / 10 ^ 10)))
       (upperPositionLimit model ! k)"

definition joint_coordinates :: "joint_model \<Rightarrow> nat set" where
  "joint_coordinates joint = {nat (idx_q joint) ..< nat (idx_q joint) + nq joint}"

definition joint_eligible :: "pin_model \<Rightarrow> joint_model \<Rightarrow> bool" where
  "joint_eligible model joint \<longleftrightarrow>
     0 \<le> idx_q joint \<and> (\<forall>k \<in> joint_coordinates joint. coordinate_has_limit model k)"

text \<open>
  The test as the specification words it: the upper limit is finite, and the upper limit
  minus the lower limit exceeds the epsilon.
\<close>

fun fl_uminus :: "float64 \<Rightarrow> float64" where
  "fl_uminus (Finite a) = Finite (- a)"
| "fl_uminus PosInf = NegInf"
| "fl_uminus NegInf = PosInf"
| "fl_uminus NaN = NaN"

definition is_finite :: "float64 \<Rightarrow> bool" where
  "is_finite x = (case x of Finite a \<Rightarrow> True | _ \<Rightarrow> False)"

definition spec_coordinate_eligible :: "pin_model \<Rightarrow> nat \<Rightarrow> bool" where
  "spec_coordinate_eligible model k \<longleftrightarrow>
     is_finite (upperPositionLimit model ! k) \<and>
     fl_less (Finite (1 / 10 ^ 10))
       (fl_add (upperPositionLimit model ! k) (fl_uminus (lowerPositionLimit model ! k)))"

definition spec_joint_eligible :: "pin_model \<Rightarrow> joint_model \<Rightarrow> bool" where
  "spec_joint_eligible model joint \<longleftrightarrow>
     (\<forall>k \<in> joint_coordinates joint. spec_coordinate_eligible model k)"

text \<open>
  A model as Pinocchio builds it: both position limits have one entry per configuration
  coordinate, the velocity limit has one entry per tangent coordinate, and a joint with
  a non-negative \<open>idx_q\<close> has its coordinates inside the configuration vector and at
  least one tangent coordinate, all inside the tangent vector.
\<close>

definition well_formed_model :: "pin_model \<Rightarrow> bool" where
  "well_formed_model model \<longleftrightarrow>
     length (lowerPositionLimit model) = length (upperPositionLimit model) \<and>
     length (velocityLimit model) = model_nv model \<and>
     (\<forall>joint \<in> set (model_joints model).
        0 \<le> idx_q joint \<longrightarrow>
          nat (idx_q joint) + nq joint \<le> length (upperPositionLimit model) \<and>
          0 \<le> idx_v joint \<and> 0 < nv joint \<and>
          nat (idx_v joint) + nv joint \<le> model_nv model)"

text \<open>The tangent-space index ranges of a list of joints, one after the other.\<close>

definition tangent_indices :: "joint_model list \<Rightarrow> int list" where
  "tangent_indices js =
     concat (map (\<lambda>joint. map (\<lambda>k. idx_v joint + int k) [0..<nv joint]) js)"

text \<open>The rows of the identity picked by a list of indices.\<close>

definition identity_rows :: "nat \<Rightarrow> int list \<Rightarrow> array2d" where
  "identity_rows n idx =
     \<lparr>nrows = length idx, ncols = n,
      rows = map (\<lambda>i. map (\<lambda>c. if nat i = c then 1 else 0) [0..<n]) idx\<rparr>"

section \<open>The configuration and the damping task (pink/tasks/damping\_task.py)\<close>

text \<open>
  A configuration gives the model and, for a frame name, the translation of the frame's
  transform to the world and the frame Jacobian.
\<close>

record configuration =
  model :: pin_model
  get_transform_frame_to_world_translation :: "string \<Rightarrow> real list"
  get_frame_jacobian :: "string \<Rightarrow> array2d"

text \<open>
  \<open>DampingTask.compute_error\<close>. The helper \<open>get_root_joint_dim\<close> (pink/utils.py) is not
  among the sources: it is the first parameter, and returns the pair of the root joint's
  \<open>nq\<close> and \<open>nv\<close>.
\<close>

definition DampingTask_compute_error ::
  "(pin_model \<Rightarrow> nat \<times> nat) \<Rightarrow> 'task \<Rightarrow> configuration \<Rightarrow> error + real list" where
  "DampingTask_compute_error get_root_joint_dim self configuration =
     (case get_root_joint_dim (model configuration) of
        (root_nq, root_nv) \<Rightarrow>
          np_zeros (int (model_nv (model configuration)) - int root_nv))"

section \<open>The position barrier (pink/barriers/position\_barrier.py)\<close>

text \<open>
  \<open>gain\<close> and \<open>class_k_fn\<close> are handed to the constructor of the base class \<open>CBF\<close>, which
  is not among the sources; they are fields here.
\<close>

record position_cbf =
  frame :: string
  p_min :: "real list option"
  p_max :: "real list option"
  mask :: "bool list option"
  cbf_dim :: nat
  cbf_gain :: real
  class_k_fn :: "real list \<Rightarrow> real"

definition PositionCBF_init ::
  "string \<Rightarrow> bool list option \<Rightarrow> real list option \<Rightarrow> real list option \<Rightarrow> real \<Rightarrow> position_cbf" where
  "PositionCBF_init fr msk mn mx g =
     \<lparr>frame = fr, p_min = mn, p_max = mx, mask = msk,
      cbf_dim = (if mn \<noteq> None then 3 else 0) + (if mx \<noteq> None then 3 else 0),
      cbf_gain = g,
      class_k_fn = (\<lambda>h. 1 / (1 + np_linalg_norm h))\<rparr>"

text \<open>
  In \<open>compute_barrier\<close> and \<open>compute_jacobian\<close> the names \<open>min\<close> and \<open>max\<close> are neither
  parameters nor attributes: they are Python's builtin functions, and a function is not
  \<open>None\<close>. Both tests \<open>min is not None\<close> and \<open>max is not None\<close> are true.
\<close>

definition builtin_is_not_None :: bool where
  "builtin_is_not_None = True"

definition compute_barrier :: "position_cbf \<Rightarrow> configuration \<Rightarrow> error + real list" where
  "compute_barrier self configuration =
     (let pos_world = get_transform_frame_to_world_translation configuration (frame self);
          tasks = []
      in
      and_then
        (if builtin_is_not_None
         then and_then (np_subtract (Some pos_world) (p_min self)) (\<lambda>d. Inr (tasks @ [d]))
         else Inr tasks) (\<lambda>tasks.
      and_then
        (if builtin_is_not_None
         then and_then (np_subtract (p_max self) (Some pos_world)) (\<lambda>d. Inr (tasks @ [d]))
         else Inr tasks) (\<lambda>tasks.
      np_concatenate tasks)))"

definition compute_jacobian :: "position_cbf \<Rightarrow> configuration \<Rightarrow> error + array2d" where
  "compute_jacobian self configuration =
     (let pos_jac = np_first_rows 3 (get_frame_jacobian configuration (frame self));
          jacobian = [];
          jacobian = (if builtin_is_not_None then jacobian @ [pos_jac] else jacobian);
          jacobian = (if builtin_is_not_None then jacobian @ [np_negative2d pos_jac]
                      else jacobian)
      in np_hstack jacobian)"

section \<open>The QP objective as the specification states it\<close>

text \<open>
  The specification's formulas, entry by entry, for a cost vector \<open>cst\<close>, a gain \<open>g\<close>, a
  damping \<open>lm\<close>, a Jacobian \<open>J\<close> with six rows and an error \<open>e\<close> with six entries:
  \<open>W = diag(cost)\<close>, \<open>Jw = W J\<close>, \<open>ew = W (gain e)\<close>, \<open>\<mu> = lm_damping (ew\<^sup>T ew)\<close>,
  \<open>H = Jw\<^sup>T Jw + \<mu> I\<close> and \<open>c = - ew\<^sup>T Jw\<close>.
\<close>

definition spec_W :: "real list \<Rightarrow> nat \<Rightarrow> nat \<Rightarrow> real" where
  "spec_W cst i k = (if i = k then cst ! i else 0)"

definition spec_Jw :: "real list \<Rightarrow> array2d \<Rightarrow> nat \<Rightarrow> nat \<Rightarrow> real" where
  "spec_Jw cst J i j = (\<Sum>k<6. spec_W cst i k * entry J k j)"

definition spec_ew :: "real list \<Rightarrow> real \<Rightarrow> real list \<Rightarrow> nat \<Rightarrow> real" where
  "spec_ew cst g e i = (\<Sum>k<6. spec_W cst i k * (g * e ! k))"

definition spec_mu :: "real \<Rightarrow> real list \<Rightarrow> real \<Rightarrow> real list \<Rightarrow> real" where
  "spec_mu lm cst g e = lm * (\<Sum>k<6. spec_ew cst g e k * spec_ew cst g e k)"

definition spec_H ::
  "real \<Rightarrow> real list \<Rightarrow> real \<Rightarrow> array2d \<Rightarrow> real list \<Rightarrow> nat \<Rightarrow> nat \<Rightarrow> real" where
  "spec_H lm cst g J e i j =
     (\<Sum>k<6. spec_Jw cst J k i * spec_Jw cst J k j)
       + spec_mu lm cst g e * (if i = j then 1 else 0)"

definition spec_c :: "real list \<Rightarrow> real \<Rightarrow> array2d \<Rightarrow> real list \<Rightarrow> nat \<Rightarrow> real" where
  "spec_c cst g J e j = - (\<Sum>k<6. spec_ew cst g e k * spec_Jw cst J k j)"

text \<open>
  A square array is symmetric when it equals its transpose entry by entry, and positive
  semidefinite when its quadratic form is nowhere negative.
\<close>

definition symmetric :: "array2d \<Rightarrow> bool" where
  "symmetric A \<longleftrightarrow>
     nrows A = ncols A \<and> (\<forall>i<nrows A. \<forall>j<nrows A. entry A i j = entry A j i)"

definition quadratic_form :: "array2d \<Rightarrow> real list \<Rightarrow> real" where
  "quadratic_form A x = (\<Sum>i<nrows A. \<Sum>j<ncols A. x ! i * entry A i j * x ! j)"

definition positive_semidefinite :: "array2d \<Rightarrow> bool" where
  "positive_semidefinite A \<longleftrightarrow> (\<forall>x. length x = nrows A \<longrightarrow> 0 \<le> quadratic_form A x)"

section \<open>Histories of a task\<close>

text \<open>
  The tasks on which \<open>set_target\<close> was never called: those \<open>__init__\<close> returns, and what
  the cost setters and the computations make of them.
\<close>

inductive untargeted :: "'se3 body_task \<Rightarrow> bool" where
  fresh: "BodyTask_init b pc oc lm g = Inr self \<Longrightarrow> untargeted self"
| position_cost: "untargeted self \<Longrightarrow> set_position_cost self pc = Inr self' \<Longrightarrow> untargeted self'"
| orientation_cost:
    "untargeted self \<Longrightarrow> set_orientation_cost self oc = Inr self' \<Longrightarrow> untargeted self'"
| error_computed:
    "untargeted self \<Longrightarrow> untargeted (snd (compute_error_in_body bbm self robot))"
| dynamics_computed:
    "untargeted self \<Longrightarrow> untargeted (snd (compute_task_dynamics bbm self robot))"
| objective_computed:
    "untargeted self \<Longrightarrow> untargeted (snd (compute_qp_objective bbm self robot))"

text \<open>
  The tasks on which \<open>set_target\<close> was called at least once, whatever was called before
  and after.
\<close>

inductive targeted :: "'se3 body_task \<Rightarrow> bool" where
  target_set: "targeted (set_target self target)"
| position_cost: "targeted self \<Longrightarrow> set_position_cost self pc = Inr self' \<Longrightarrow> targeted self'"
| orientation_cost:
    "targeted self \<Longrightarrow> set_orientation_cost self oc = Inr self' \<Longrightarrow> targeted self'"
| error_computed:
    "targeted self \<Longrightarrow> targeted (snd (compute_error_in_body bbm self robot))"
| dynamics_computed:
    "targeted self \<Longrightarrow> targeted (snd (compute_task_dynamics bbm self robot))"
| objective_computed:
    "targeted self \<Longrightarrow> targeted (snd (compute_qp_objective bbm self robot))"

text \<open>
  The tasks a caller can have: those \<open>__init__\<close> returns, and what the setters and the
  computations make of them.
\<close>

inductive constructed :: "'se3 body_task \<Rightarrow> bool" where
  fresh: "BodyTask_init b pc oc lm g = Inr self \<Longrightarrow> constructed self"
| position_cost: "constructed self \<Longrightarrow> set_position_cost self pc = Inr self' \<Longrightarrow> constructed self'"
| orientation_cost:
    "constructed self \<Longrightarrow> set_orientation_cost self oc = Inr self' \<Longrightarrow> constructed self'"
| target_set: "constructed self \<Longrightarrow> constructed (set_target self target)"
| error_computed:
    "constructed self \<Longrightarrow> constructed (snd (compute_error_in_body bbm self robot))"
| dynamics_computed:
    "constructed self \<Longrightarrow> constructed (snd (compute_task_dynamics bbm self robot))"
| objective_computed:
    "constructed self \<Longrightarrow> constructed (snd (compute_qp_objective bbm self robot))"

section \<open>Lemmas on the body task\<close>

lemma set_position_cost_target:
  "set_position_cost self pc = Inr self' \<Longrightarrow>
     transform_target_to_world self' = transform_target_to_world self \<and> body self' = body self"
  by (auto simp: set_position_cost_def and_then_def split: if_splits sum.splits)

lemma set_orientation_cost_target:
  "set_orientation_cost self oc = Inr self' \<Longrightarrow>
     transform_target_to_world self' = transform_target_to_world self \<and> body self' = body self"
  by (auto simp: set_orientation_cost_def and_then_def split: if_splits sum.splits)

lemma BodyTask_init_target:
  "BodyTask_init b pc oc lm g = Inr self \<Longrightarrow> transform_target_to_world self = None"
  by (auto simp: BodyTask_init_def Let_def and_then_def
      dest!: set_position_cost_target set_orientation_cost_target split: sum.splits)

lemma compute_error_in_body_state:
  "snd (compute_error_in_body bbm self robot) =
     (case fst (compute_error_in_body bbm self robot) of
        Inl err \<Rightarrow> self | Inr e \<Rightarrow> self\<lparr>error_in_body := e\<rparr>)"
  by (simp add: compute_error_in_body_def Let_def split: option.splits)

lemma compute_task_dynamics_state:
  "snd (compute_task_dynamics bbm self robot) = snd (compute_error_in_body bbm self robot)"
  by (simp add: compute_task_dynamics_def Let_def split: prod.splits sum.splits)

lemma compute_qp_objective_state:
  "snd (compute_qp_objective bbm self robot) = snd (compute_error_in_body bbm self robot)"
  by (simp add: compute_qp_objective_def compute_task_dynamics_state [symmetric]
      split: prod.splits sum.splits)

lemma compute_error_in_body_target:
  "transform_target_to_world (snd (compute_error_in_body bbm self robot)) =
     transform_target_to_world self"
  by (simp add: compute_error_in_body_def Let_def split: option.splits)

lemma untargeted_None: "untargeted self \<Longrightarrow> transform_target_to_world self = None"
proof (induction rule: untargeted.induct)
  case (fresh b pc oc lm g self)
  then show ?case by (rule BodyTask_init_target)
next
  case (position_cost self pc self')
  then show ?case by (simp add: set_position_cost_target)
next
  case (orientation_cost self oc self')
  then show ?case by (simp add: set_orientation_cost_target)
next
  case (error_computed self bbm robot)
  then show ?case by (simp add: compute_error_in_body_target)
next
  case (dynamics_computed self bbm robot)
  then show ?case by (simp add: compute_task_dynamics_state compute_error_in_body_target)
next
  case (objective_computed self bbm robot)
  then show ?case by (simp add: compute_qp_objective_state compute_error_in_body_target)
qed

lemma targeted_Some: "targeted self \<Longrightarrow> \<exists>t. transform_target_to_world self = Some t"
proof (induction rule: targeted.induct)
  case (target_set self target)
  then show ?case by (simp add: set_target_def)
next
  case (position_cost self pc self')
  then show ?case by (simp add: set_position_cost_target)
next
  case (orientation_cost self oc self')
  then show ?case by (simp add: set_orientation_cost_target)
next
  case (error_computed self bbm robot)
  then show ?case by (simp add: compute_error_in_body_target)
next
  case (dynamics_computed self bbm robot)
  then show ?case by (simp add: compute_task_dynamics_state compute_error_in_body_target)
next
  case (objective_computed self bbm robot)
  then show ?case by (simp add: compute_qp_objective_state compute_error_in_body_target)
qed

lemma np_ops_not_TargetNotSet:
  "np_matmul A B \<noteq> Inl (TargetNotSet m)" "np_matvec A x \<noteq> Inl (TargetNotSet m)"
  "np_vecvec x y \<noteq> Inl (TargetNotSet m)" "np_vecmat x A \<noteq> Inl (TargetNotSet m)"
  "np_add A B \<noteq> Inl (TargetNotSet m)"
  by (simp_all add: np_matmul_def np_matvec_def np_vecvec_def np_vecmat_def np_add_def
      split: option.splits)

lemma and_then_not_TargetNotSet:
  "r \<noteq> Inl (TargetNotSet m) \<Longrightarrow> (\<And>x. f x \<noteq> Inl (TargetNotSet m)) \<Longrightarrow>
     and_then r f \<noteq> Inl (TargetNotSet m)"
  by (cases r) (simp_all add: and_then_def)

lemma compute_qp_objective_Some_target:
  assumes "transform_target_to_world self = Some t"
  shows "fst (compute_qp_objective bbm self robot) \<noteq> Inl (TargetNotSet m)"
  using assms
  by (simp add: compute_qp_objective_def compute_task_dynamics_def compute_error_in_body_def
      Let_def and_then_not_TargetNotSet np_ops_not_TargetNotSet)

lemma sum_list_squares_nonneg: "0 \<le> sum_list (map (\<lambda>x. x * x) (h :: real list))"
  by (induction h) simp_all

lemma np_linalg_norm_nonneg: "0 \<le> np_linalg_norm h"
  by (simp add: np_linalg_norm_def sum_list_squares_nonneg)

lemma np_linalg_norm_zero: "np_linalg_norm (replicate n 0) = 0"
  by (induction n) (simp_all add: np_linalg_norm_def)

lemma compute_error_in_body_again:
  "compute_error_in_body bbm (snd (compute_error_in_body bbm self robot)) robot =
     compute_error_in_body bbm self robot"
  by (simp add: compute_error_in_body_def Let_def split: option.splits)

lemma compute_error_in_body_frame:
  "snd (compute_error_in_body bbm self robot)
     \<lparr>error_in_body := error_in_body self\<rparr> = self"
  by (simp add: compute_error_in_body_def Let_def split: option.splits)

lemma compute_task_dynamics_again:
  "compute_task_dynamics bbm (snd (compute_task_dynamics bbm self robot)) robot =
     compute_task_dynamics bbm self robot"
  by (simp add: compute_task_dynamics_def compute_error_in_body_def Let_def split: option.splits)

lemma compute_qp_objective_again:
  "compute_qp_objective bbm (snd (compute_qp_objective bbm self robot)) robot =
     compute_qp_objective bbm self robot"
  by (simp add: compute_qp_objective_def compute_task_dynamics_def compute_error_in_body_def Let_def split: option.splits)

section \<open>Lemmas on arrays and on the QP objective\<close>

lemma array2d_of_shape [simp]:
  "nrows (array2d_of r c f) = r" "ncols (array2d_of r c f) = c"
  by (simp_all add: array2d_of_def)

lemma entry_array2d_of [simp]:
  "i < r \<Longrightarrow> j < c \<Longrightarrow> entry (array2d_of r c f) i j = f i j"
  by (simp add: array2d_of_def entry_def)

lemma array2d_of_cong:
  "(\<And>i j. i < r \<Longrightarrow> j < c \<Longrightarrow> f i j = g i j) \<Longrightarrow> array2d_of r c f = array2d_of r c g"
  by (simp add: array2d_of_def)

lemma is_array2d_array2d_of: "is_array2d (array2d_of r c f)"
  by (simp add: is_array2d_def array2d_of_def list_all_iff)

lemma np_diag_spec_W:
  "length cst = 6 \<Longrightarrow> np_diag cst = array2d_of 6 6 (spec_W cst)"
  by (auto simp: np_diag_def spec_W_def intro!: array2d_of_cong)

lemma weighted_jacobian_eq:
  assumes "length cst = 6" "nrows J = 6"
  shows "np_matmul (np_diag cst) J = Inr (array2d_of 6 (ncols J) (spec_Jw cst J))"
  using assms
  by (auto simp: np_matmul_def np_diag_spec_W spec_Jw_def intro!: array2d_of_cong sum.cong)

lemma weighted_error_eq:
  assumes "length cst = 6" "length e = 6"
  shows "np_matvec (np_diag cst) (np_scale_vec g e) = Inr (map (spec_ew cst g e) [0..<6])"
  using assms
  by (auto simp: np_matvec_def np_diag_spec_W spec_ew_def np_scale_vec_def intro!: sum.cong)

lemma mu_eq:
  "np_vecvec (np_scale_vec lm (map (spec_ew cst g e) [0..<6])) (map (spec_ew cst g e) [0..<6])
     = Inr (spec_mu lm cst g e)"
  by (auto simp: np_vecvec_def np_scale_vec_def spec_mu_def sum_distrib_left mult.assoc
      simp del: upt_Suc intro!: sum.cong)

lemma gram_eq:
  "np_matmul (np_transpose (array2d_of 6 n Jw)) (array2d_of 6 n Jw)
     = Inr (array2d_of n n (\<lambda>i j. \<Sum>k<6. Jw k i * Jw k j))"
  by (auto simp: np_matmul_def np_transpose_def intro!: array2d_of_cong sum.cong)

lemma hessian_eq:
  "np_add (array2d_of n n G) (np_scale mu (np_eye n))
     = Inr (array2d_of n n (\<lambda>i j. G i j + mu * (if i = j then 1 else 0)))"
  by (auto simp: np_add_def broadcast_len_def np_scale_def np_eye_def intro!: array2d_of_cong)

lemma linear_eq:
  "np_vecmat (np_negative (map ew [0..<6])) (array2d_of 6 n Jw)
     = Inr (map (\<lambda>j. - (\<Sum>k<6. ew k * Jw k j)) [0..<n])"
  by (auto simp: np_vecmat_def np_negative_def sum_negf [symmetric] simp del: upt_Suc intro!: sum.cong)

lemma compute_qp_objective_eq:
  assumes "transform_target_to_world self = Some target"
    and "length (cost self) = 6"
    and "nrows (get_body_jacobian robot (body self)) = 6"
    and "ncols (get_body_jacobian robot (body self)) = robot_nv robot"
    and "length (bbm target (get_transform_body_to_world robot (body self))) = 6"
  shows "compute_qp_objective bbm self robot =
     (let J = get_body_jacobian robot (body self);
          e = np_negative (bbm target (get_transform_body_to_world robot (body self)))
      in (Inr (array2d_of (robot_nv robot) (robot_nv robot)
                 (spec_H (lm_damping self) (cost self) (gain self) J e),
               map (spec_c (cost self) (gain self) J e) [0..<robot_nv robot]),
          self\<lparr>error_in_body := e\<rparr>))"
proof -
  let ?J = "get_body_jacobian robot (body self)"
  let ?e = "np_negative (bbm target (get_transform_body_to_world robot (body self)))"
  have le: "length ?e = 6"
    using assms(5) by (simp add: np_negative_def)
  have dyn: "compute_task_dynamics bbm self robot =
      (Inr (?J, np_scale_vec (gain self) ?e), self\<lparr>error_in_body := ?e\<rparr>)"
    using assms(1) by (simp add: compute_task_dynamics_def compute_error_in_body_def Let_def)
  have H: "(\<lambda>i j. (\<Sum>k<6. spec_Jw (cost self) ?J k i * spec_Jw (cost self) ?J k j)
            + spec_mu (lm_damping self) (cost self) (gain self) ?e * (if i = j then 1 else 0))
        = spec_H (lm_damping self) (cost self) (gain self) ?J ?e"
    by (simp add: spec_H_def fun_eq_iff)
  have c: "(\<lambda>j. - (\<Sum>k<6. spec_ew (cost self) (gain self) ?e k * spec_Jw (cost self) ?J k j))
        = spec_c (cost self) (gain self) ?J ?e"
    by (simp add: spec_c_def fun_eq_iff)
  show ?thesis
    unfolding compute_qp_objective_def dyn
    by (simp add: Let_def and_then_def weighted_jacobian_eq [OF assms(2,3)]
        weighted_error_eq [OF assms(2) le] mu_eq gram_eq hessian_eq linear_eq assms(4) H c
        del: upt_Suc)
qed


lemma assign_slice3_length:
  "assign_slice3 xs a v = Inr ys \<Longrightarrow> length xs = 6 \<Longrightarrow> a \<le> 3 \<Longrightarrow> length ys = 6"
  by (auto simp: assign_slice3_def split: cost_arg.splits if_splits)

lemma set_position_cost_length:
  "set_position_cost self pc = Inr self' \<Longrightarrow> length (cost self) = 6 \<Longrightarrow> length (cost self') = 6"
  by (auto simp: set_position_cost_def and_then_def split: if_splits sum.splits
      dest: assign_slice3_length)

lemma set_orientation_cost_length:
  "set_orientation_cost self oc = Inr self' \<Longrightarrow> length (cost self) = 6 \<Longrightarrow> length (cost self') = 6"
  by (auto simp: set_orientation_cost_def and_then_def split: if_splits sum.splits
      dest: assign_slice3_length)

lemma compute_error_in_body_cost:
  "cost (snd (compute_error_in_body bbm self robot)) = cost self"
  by (simp add: compute_error_in_body_def Let_def split: option.splits)

lemma constructed_cost: "constructed self \<Longrightarrow> length (cost self) = 6"
proof (induction rule: constructed.induct)
  case (fresh b pc oc lm g self)
  then show ?case
    by (auto simp: BodyTask_init_def Let_def and_then_def split: sum.splits
        dest!: set_position_cost_length set_orientation_cost_length)
next
  case (position_cost self pc self')
  then show ?case by (simp add: set_position_cost_length)
next
  case (orientation_cost self oc self')
  then show ?case by (simp add: set_orientation_cost_length)
next
  case (target_set self target)
  then show ?case by (simp add: set_target_def)
next
  case (error_computed self bbm robot)
  then show ?case by (simp add: compute_error_in_body_cost)
next
  case (dynamics_computed self bbm robot)
  then show ?case by (simp add: compute_task_dynamics_state compute_error_in_body_cost)
next
  case (objective_computed self bbm robot)
  then show ?case by (simp add: compute_qp_objective_state compute_error_in_body_cost)
qed

lemma gram_quadratic:
  fixes A :: "nat \<Rightarrow> nat \<Rightarrow> real" and x :: "nat \<Rightarrow> real"
  shows "(\<Sum>i<n. \<Sum>j<n. x i * (\<Sum>k<m. A k i * A k j) * x j)
           = (\<Sum>k<m. (\<Sum>i<n. A k i * x i) * (\<Sum>i<n. A k i * x i))"
proof -
  have "(\<Sum>i<n. \<Sum>j<n. x i * (\<Sum>k<m. A k i * A k j) * x j)
      = (\<Sum>i<n. \<Sum>j<n. \<Sum>k<m. (A k i * x i) * (A k j * x j))"
    by (simp add: sum_distrib_left sum_distrib_right mult_ac)
  also have "\<dots> = (\<Sum>i<n. \<Sum>k<m. \<Sum>j<n. (A k i * x i) * (A k j * x j))"
    by (rule sum.cong [OF refl]) (rule sum.swap)
  also have "\<dots> = (\<Sum>k<m. \<Sum>i<n. \<Sum>j<n. (A k i * x i) * (A k j * x j))"
    by (rule sum.swap)
  also have "\<dots> = (\<Sum>k<m. (\<Sum>i<n. A k i * x i) * (\<Sum>i<n. A k i * x i))"
    by (simp add: sum_product)
  finally show ?thesis .
qed

lemma damping_quadratic:
  fixes x :: "nat \<Rightarrow> real"
  shows "(\<Sum>i<n. \<Sum>j<n. x i * (mu * (if i = j then 1 else 0)) * x j) = mu * (\<Sum>i<n. x i * x i)"
proof -
  have "(\<Sum>j<n. x i * (mu * (if i = j then 1 else 0)) * x j) = mu * (x i * x i)" if "i < n" for i
  proof -
    have "(\<Sum>j<n. x i * (mu * (if i = j then 1 else 0)) * x j)
        = (\<Sum>j<n. if i = j then mu * (x i * x i) else 0)"
      by (rule sum.cong [OF refl]) simp
    also have "\<dots> = mu * (x i * x i)"
      using that by (simp add: sum.delta')
    finally show ?thesis .
  qed
  then show ?thesis
    by (simp add: sum_distrib_left)
qed

lemma gram_plus_damping_nonneg:
  fixes A :: "nat \<Rightarrow> nat \<Rightarrow> real" and x :: "nat \<Rightarrow> real"
  assumes "0 \<le> mu"
  shows "0 \<le> (\<Sum>i<n. \<Sum>j<n. x i * ((\<Sum>k<m. A k i * A k j) + mu * (if i = j then 1 else 0)) * x j)"
proof -
  have "(\<Sum>i<n. \<Sum>j<n. x i * ((\<Sum>k<m. A k i * A k j) + mu * (if i = j then 1 else 0)) * x j)
      = (\<Sum>i<n. \<Sum>j<n. x i * (\<Sum>k<m. A k i * A k j) * x j)
        + (\<Sum>i<n. \<Sum>j<n. x i * (mu * (if i = j then 1 else 0)) * x j)"
    by (simp only: distrib_left distrib_right sum.distrib)
  also have "\<dots> = (\<Sum>k<m. (\<Sum>i<n. A k i * x i) * (\<Sum>i<n. A k i * x i)) + mu * (\<Sum>i<n. x i * x i)"
    by (simp only: gram_quadratic damping_quadratic)
  also have "0 \<le> \<dots>"
    using assms by (intro add_nonneg_nonneg sum_nonneg mult_nonneg_nonneg [of mu]) simp_all
  finally show ?thesis .
qed

lemma spec_mu_nonneg: "0 \<le> lm \<Longrightarrow> 0 \<le> spec_mu lm cst g e"
  by (simp add: spec_mu_def sum_nonneg)

lemma spec_H_symmetric: "symmetric (array2d_of n n (spec_H lm cst g J e))"
  by (auto simp: symmetric_def spec_H_def mult.commute)

lemma spec_H_psd:
  assumes "0 \<le> lm"
  shows "positive_semidefinite (array2d_of n n (spec_H lm cst g J e))"
  unfolding positive_semidefinite_def quadratic_form_def
proof (intro allI impI)
  fix x :: "real list"
  have "(\<Sum>i<n. \<Sum>j<n. x ! i * entry (array2d_of n n (spec_H lm cst g J e)) i j * x ! j)
      = (\<Sum>i<n. \<Sum>j<n. x ! i * ((\<Sum>k<6. spec_Jw cst J k i * spec_Jw cst J k j)
             + spec_mu lm cst g e * (if i = j then 1 else 0)) * x ! j)"
    by (intro sum.cong refl) (simp add: spec_H_def)
  also have "0 \<le> \<dots>"
    by (rule gram_plus_damping_nonneg) (rule spec_mu_nonneg [OF assms])
  finally show "0 \<le> (\<Sum>i<nrows (array2d_of n n (spec_H lm cst g J e)).
      \<Sum>j<ncols (array2d_of n n (spec_H lm cst g J e)).
        x ! i * entry (array2d_of n n (spec_H lm cst g J e)) i j * x ! j)"
    by simp
qed

section \<open>Lemmas on the bounded tangent space\<close>

lemma np_elementwise_same_length:
  "length xs = length ys \<Longrightarrow>
     np_elementwise f xs ys = Inr (map (\<lambda>k. f (xs ! k) (ys ! k)) [0..<length xs])"
  by (auto simp: np_elementwise_def intro!: nth_equalityI)

lemma has_configuration_limit_eq:
  assumes "length (lowerPositionLimit mdl) = length (upperPositionLimit mdl)"
  shows "has_configuration_limit mdl =
     Inr (map (coordinate_has_limit mdl) [0..<length (upperPositionLimit mdl)])"
  using assms
  by (simp add: has_configuration_limit_def Let_def np_elementwise_same_length and_then_def
      coordinate_has_limit_def)

lemma list_all_np_slice:
  assumes "b \<le> length xs"
  shows "list_all P (np_slice xs a b) \<longleftrightarrow> (\<forall>k \<in> {a..<b}. P (xs ! k))"
proof -
  have "list_all P (np_slice xs a b) \<longleftrightarrow> (\<forall>n < b - a. P (xs ! (a + n)))"
    using assms by (simp add: np_slice_def list_all_length min_absorb2)
  also have "\<dots> \<longleftrightarrow> (\<forall>k \<in> {a..<b}. P (xs ! k))"
  proof
    assume h: "\<forall>n < b - a. P (xs ! (a + n))"
    show "\<forall>k \<in> {a..<b}. P (xs ! k)"
    proof
      fix k assume "k \<in> {a..<b}"
      then have "k - a < b - a" "a + (k - a) = k" by auto
      with h show "P (xs ! k)" by metis
    qed
  next
    assume "\<forall>k \<in> {a..<b}. P (xs ! k)"
    then show "\<forall>n < b - a. P (xs ! (a + n))" by auto
  qed
  finally show ?thesis .
qed

lemma eligible_test:
  assumes "0 \<le> idx_q joint"
    and "nat (idx_q joint) + nq joint \<le> n"
  shows "list_all (\<lambda>b. b)
           (np_slice (map (coordinate_has_limit mdl) [0..<n]) (nat (idx_q joint))
              (nat (idx_q joint + int (nq joint))))
         \<longleftrightarrow> (\<forall>k \<in> joint_coordinates joint. coordinate_has_limit mdl k)"
proof -
  have stop: "nat (idx_q joint + int (nq joint)) = nat (idx_q joint) + nq joint"
    using assms(1) by (simp add: nat_add_distrib)
  show ?thesis
    using assms(2) by (simp add: stop list_all_np_slice joint_coordinates_def)
qed

lemma filter_eligible:
  assumes "well_formed_model mdl"
  shows "filter (\<lambda>joint. idx_q joint \<ge> 0 \<and>
             list_all (\<lambda>b. b)
               (np_slice (map (coordinate_has_limit mdl) [0..<length (upperPositionLimit mdl)])
                  (nat (idx_q joint)) (nat (idx_q joint + int (nq joint)))))
           (model_joints mdl)
         = filter (joint_eligible mdl) (model_joints mdl)"
proof (rule filter_cong [OF refl])
  fix joint assume "joint \<in> set (model_joints mdl)"
  with assms have "0 \<le> idx_q joint \<Longrightarrow>
      nat (idx_q joint) + nq joint \<le> length (upperPositionLimit mdl)"
    by (simp add: well_formed_model_def)
  then show "(idx_q joint \<ge> 0 \<and>
             list_all (\<lambda>b. b)
               (np_slice (map (coordinate_has_limit mdl) [0..<length (upperPositionLimit mdl)])
                  (nat (idx_q joint)) (nat (idx_q joint + int (nq joint)))))
        = joint_eligible mdl joint"
    using eligible_test [of joint "length (upperPositionLimit mdl)" mdl]
    by (auto simp: joint_eligible_def)
qed

lemma py_range_eq: "py_range a (a + int n) = map (\<lambda>k. a + int k) [0..<n]"
  by (simp add: py_range_def)

lemma tangent_indices_in_range:
  assumes "\<forall>joint \<in> set js. 0 \<le> idx_v joint \<and> nat (idx_v joint) + nv joint \<le> n"
  shows "\<forall>i \<in> set (tangent_indices js). 0 \<le> i \<and> i < int n"
  using assms by (fastforce simp: tangent_indices_def)

lemma tangent_indices_nonempty:
  assumes "js \<noteq> []" and "\<forall>joint \<in> set js. 0 < nv joint"
  shows "tangent_indices js \<noteq> []"
proof -
  from assms(1) obtain j rest where "js = j # rest" by (cases js) auto
  with assms(2) show ?thesis by (simp add: tangent_indices_def)
qed

lemma np_take_in_range:
  assumes "idx \<noteq> []" and "\<forall>i \<in> set idx. 0 \<le> i \<and> i < int (length a)"
  shows "np_take a idx = Inr (map (\<lambda>i. a ! nat i) idx)"
  using assms by (auto simp: np_take_def index_ok_def index_pos_def list_all_iff)

lemma np_take_rows_eye:
  assumes "idx \<noteq> []" and "\<forall>i \<in> set idx. 0 \<le> i \<and> i < int n"
  shows "np_take_rows (np_eye n) idx = Inr (identity_rows n idx)"
  using assms
  by (auto simp: np_take_rows_def np_eye_def array2d_of_def identity_rows_def index_ok_def
      index_pos_def list_all_iff)


lemma BoundedTangent_init_eq:
  assumes wf: "well_formed_model mdl"
  shows "BoundedTangent_init mdl =
     (let js = filter (joint_eligible mdl) (model_joints mdl); idx = tangent_indices js
      in Inr \<lparr>dim = length idx, indices = idx, joints = js,
              projection_matrix = (if js = [] then None else Some (identity_rows (model_nv mdl) idx)),
              velocity_limit = (if js = [] then None
                                else Some (map (\<lambda>i. velocityLimit mdl ! nat i) idx))\<rparr>)"
proof -
  let ?js = "filter (joint_eligible mdl) (model_joints mdl)"
  let ?idx = "tangent_indices ?js"
  have len: "length (lowerPositionLimit mdl) = length (upperPositionLimit mdl)"
    and vlen: "length (velocityLimit mdl) = model_nv mdl"
    using wf by (simp_all add: well_formed_model_def)
  have js: "\<forall>joint \<in> set ?js. 0 \<le> idx_v joint \<and> 0 < nv joint \<and>
      nat (idx_v joint) + nv joint \<le> model_nv mdl"
    using wf by (auto simp: well_formed_model_def joint_eligible_def)
  then have range: "\<forall>i \<in> set ?idx. 0 \<le> i \<and> i < int (model_nv mdl)"
    by (intro tangent_indices_in_range) blast
  have nonempty: "?idx \<noteq> []" if "?js \<noteq> []"
    using that js by (intro tangent_indices_nonempty) blast+
  have empty: "?idx = []" if "?js = []"
    using that by (simp add: tangent_indices_def)
  have idx: "concat (map (\<lambda>joint. py_range (idx_v joint) (idx_v joint + int (nv joint))) ?js) = ?idx"
    by (simp add: tangent_indices_def py_range_eq)
  have pm: "np_take_rows (np_eye (model_nv mdl)) ?idx = Inr (identity_rows (model_nv mdl) ?idx)"
    if "?js \<noteq> []"
    using nonempty [OF that] range by (rule np_take_rows_eye)
  have vl: "np_take (velocityLimit mdl) ?idx = Inr (map (\<lambda>i. velocityLimit mdl ! nat i) ?idx)"
    if "?js \<noteq> []"
    using nonempty [OF that] range by (intro np_take_in_range) (simp_all add: vlen)
  have body: "BoundedTangent_init mdl =
     (case (if 0 < length ?idx
            then case np_take_rows (np_eye (model_nv mdl)) ?idx of
                   Inl e \<Rightarrow> Inl e | Inr m \<Rightarrow> Inr (Some m)
            else Inr None) of
        Inl e \<Rightarrow> Inl e
      | Inr pm \<Rightarrow>
          (case (if 0 < length ?js
                 then case np_take (velocityLimit mdl) ?idx of
                        Inl e \<Rightarrow> Inl e | Inr v \<Rightarrow> Inr (Some v)
                 else Inr None) of
             Inl e \<Rightarrow> Inl e
           | Inr vl \<Rightarrow>
               Inr \<lparr>dim = length ?idx, indices = ?idx, joints = ?js,
                    projection_matrix = pm, velocity_limit = vl\<rparr>))"
    unfolding BoundedTangent_init_def has_configuration_limit_eq [OF len] and_then_def
      sum.case Let_def
    by (simp only: filter_eligible [OF wf] idx)
  show ?thesis
  proof (cases "?js = []")
    case True
    then show ?thesis
      unfolding body by (simp add: tangent_indices_def Let_def)
  next
    case False
    then show ?thesis
      unfolding body using nonempty [OF False] by (simp add: pm vl Let_def)
  qed
qed

lemma project_bounded:
  assumes "well_formed_model mdl" and "BoundedTangent_init mdl = Inr b"
  shows "project (model_nv mdl) b v =
     (if length v \<noteq> model_nv mdl then Inl (AssertionError ''Dimension mismatch'')
      else if joints b = [] then Inl IndexError
      else Inr (map (\<lambda>i. v ! nat i) (indices b)))"
proof -
  let ?js = "filter (joint_eligible mdl) (model_joints mdl)"
  have b: "indices b = tangent_indices ?js" "joints b = ?js"
    using assms(2) BoundedTangent_init_eq [OF assms(1)] by (auto simp: Let_def)
  have js: "\<forall>joint \<in> set ?js. 0 \<le> idx_v joint \<and> 0 < nv joint \<and>
      nat (idx_v joint) + nv joint \<le> model_nv mdl"
    using assms(1) by (auto simp: well_formed_model_def joint_eligible_def)
  then have range: "\<forall>i \<in> set (tangent_indices ?js). 0 \<le> i \<and> i < int (model_nv mdl)"
    by (intro tangent_indices_in_range) blast
  show ?thesis
  proof (cases "?js = []")
    case True
    then show ?thesis
      by (simp add: project_def b np_take_def tangent_indices_def)
  next
    case False
    then have "tangent_indices ?js \<noteq> []"
      using js by (intro tangent_indices_nonempty) blast+
    then show ?thesis
      using False range by (simp add: project_def b np_take_in_range)
  qed
qed

section \<open>Claims\<close>

text \<open>
  C6. On a body task on which \<open>set_target\<close> was never called, \<open>compute_error_in_body\<close>
  raises \<open>TargetNotSet\<close> with the message naming the task's body, and so does
  \<open>compute_qp_objective\<close>; neither returns an error vector, and the task object is left
  as it was. On a task on which \<open>set_target\<close> was called, \<open>compute_error_in_body\<close>
  returns an error vector and \<open>compute_qp_objective\<close> does not raise \<open>TargetNotSet\<close>.
\<close>

theorem unset_target_fails:
  "(untargeted self \<longrightarrow>
      compute_error_in_body bbm self robot =
        (Inl (TargetNotSet (''no target set for body '' @ body self)), self) \<and>
      compute_qp_objective bbm self robot =
        (Inl (TargetNotSet (''no target set for body '' @ body self)), self)) \<and>
   (targeted self \<longrightarrow>
      (\<exists>e. fst (compute_error_in_body bbm self robot) = Inr e) \<and>
      (\<forall>m. fst (compute_qp_objective bbm self robot) \<noteq> Inl (TargetNotSet m)))"
proof (intro conjI impI)
  assume "untargeted self"
  then have none: "transform_target_to_world self = None"
    by (rule untargeted_None)
  then show "compute_error_in_body bbm self robot =
      (Inl (TargetNotSet (''no target set for body '' @ body self)), self)"
    by (simp add: compute_error_in_body_def)
  with none show "compute_qp_objective bbm self robot =
      (Inl (TargetNotSet (''no target set for body '' @ body self)), self)"
    by (simp add: compute_qp_objective_def compute_task_dynamics_def)
next
  assume "targeted self"
  then obtain t where some: "transform_target_to_world self = Some t"
    using targeted_Some by blast
  then show "\<exists>e. fst (compute_error_in_body bbm self robot) = Inr e"
    by (simp add: compute_error_in_body_def Let_def)
  from some show "\<forall>m. fst (compute_qp_objective bbm self robot) \<noteq> Inl (TargetNotSet m)"
    by (simp add: compute_qp_objective_Some_target)
qed

theorem unset_target_fails_witness:
  "BodyTask_init ''ee_link'' (Scalar 1) (Sequence [1, 0, 2]) (1 / 1000000) 1 =
     Inr \<lparr>body = ''ee_link'', cost = [1, 1, 1, 1, 0, 2], error_in_body = [0, 0, 0, 0, 0, 0],
          lm_damping = 1 / 1000000, transform_target_to_world = (None :: nat option),
          gain = 1\<rparr> \<and>
   compute_error_in_body (\<lambda>a b. [real a - real b, 0, 0, 0, 0, 0])
     \<lparr>body = ''ee_link'', cost = [1, 1, 1, 1, 0, 2], error_in_body = [0, 0, 0, 0, 0, 0],
      lm_damping = 1 / 1000000, transform_target_to_world = None, gain = 1\<rparr>
     \<lparr>robot_nv = 1, get_transform_body_to_world = (\<lambda>b. 3),
      get_body_jacobian = (\<lambda>b. np_eye 1)\<rparr> =
     (Inl (TargetNotSet ''no target set for body ee_link''),
      \<lparr>body = ''ee_link'', cost = [1, 1, 1, 1, 0, 2], error_in_body = [0, 0, 0, 0, 0, 0],
       lm_damping = 1 / 1000000, transform_target_to_world = None, gain = 1\<rparr>) \<and>
   (\<exists>e. fst (compute_error_in_body (\<lambda>a b. [real a - real b, 0, 0, 0, 0, 0])
      (set_target
        \<lparr>body = ''ee_link'', cost = [1, 1, 1, 1, 0, 2], error_in_body = [0, 0, 0, 0, 0, 0],
         lm_damping = 1 / 1000000, transform_target_to_world = None, gain = 1\<rparr> 5)
      \<lparr>robot_nv = 1, get_transform_body_to_world = (\<lambda>b. 3),
       get_body_jacobian = (\<lambda>b. np_eye 1)\<rparr>) = Inr e)"
proof -
  let ?t = "\<lparr>body = ''ee_link'', cost = [1, 1, 1, 1, 0, 2], error_in_body = [0, 0, 0, 0, 0, 0],
          lm_damping = 1 / 1000000, transform_target_to_world = (None :: nat option),
          gain = 1\<rparr>"
  have init: "BodyTask_init ''ee_link'' (Scalar 1) (Sequence [1, 0, 2]) (1 / 1000000) 1 = Inr ?t"
    by (simp add: BodyTask_init_def set_position_cost_def set_orientation_cost_def
        cost_arg_ok_def assign_slice3_def and_then_def numeral_eq_Suc)
  then have u: "untargeted ?t"
    by (rule untargeted.fresh)
  have t: "targeted (set_target ?t 5)"
    by (rule targeted.target_set)
  show ?thesis
    using init u t
      unset_target_fails [of ?t "\<lambda>a b. [real a - real b, 0, 0, 0, 0, 0]"
        "\<lparr>robot_nv = 1, get_transform_body_to_world = (\<lambda>b. 3),
         get_body_jacobian = (\<lambda>b. np_eye 1)\<rparr>"]
      unset_target_fails [of "set_target ?t 5" "\<lambda>a b. [real a - real b, 0, 0, 0, 0, 0]"
        "\<lparr>robot_nv = 1, get_transform_body_to_world = (\<lambda>b. 3),
         get_body_jacobian = (\<lambda>b. np_eye 1)\<rparr>"]
    by simp
qed

text \<open>
  C7 (amended). The class-K function a position barrier stores is the default
  \<open>\<alpha>(h) = 1 / (1 + \<parallel>h\<parallel>)\<close>. It is positive and at most 1, it is 1 (not 0) on a zero
  margin, and it decreases strictly as the norm of the margin grows: it does not meet
  the contract of a class-K function (increasing, zero at zero).
\<close>

theorem default_class_k:
  "class_k_fn (PositionCBF_init fr msk mn mx g) h = 1 / (1 + np_linalg_norm h) \<and>
   0 < class_k_fn (PositionCBF_init fr msk mn mx g) h \<and>
   class_k_fn (PositionCBF_init fr msk mn mx g) h \<le> 1 \<and>
   class_k_fn (PositionCBF_init fr msk mn mx g) (replicate n 0) = 1 \<and>
   (np_linalg_norm h < np_linalg_norm h' \<longrightarrow>
      class_k_fn (PositionCBF_init fr msk mn mx g) h' < class_k_fn (PositionCBF_init fr msk mn mx g) h)"
  using np_linalg_norm_nonneg [of h] np_linalg_norm_nonneg [of h']
  by (simp add: PositionCBF_init_def np_linalg_norm_zero frac_less2 field_simps)

theorem default_class_k_witness:
  "class_k_fn (PositionCBF_init ''tool'' None (Some [0, 0, 0]) None 1) [1, 0, 0] = 1 / 2 \<and>
   np_linalg_norm [1, 0, 0] < np_linalg_norm [2, 0, 0] \<and>
   class_k_fn (PositionCBF_init ''tool'' None (Some [0, 0, 0]) None 1) [2, 0, 0]
     < class_k_fn (PositionCBF_init ''tool'' None (Some [0, 0, 0]) None 1) [1, 0, 0]"
proof -
  have lt: "np_linalg_norm [1, 0, 0] < np_linalg_norm [2, 0, 0]"
    by (simp add: np_linalg_norm_def)
  have n1: "np_linalg_norm [1, 0, 0] = 1"
    by (simp add: np_linalg_norm_def)
  show ?thesis
    using lt n1 default_class_k [of "''tool''" None "Some [0, 0, 0]" None 1 "[1, 0, 0]" 0 "[2, 0, 0]"]
    by simp
qed

text \<open>
  The claim as stated fails on the default function: at the zero margin it is 1, and it
  is smaller at the margin \<open>[1, 0, 0]\<close> than at the zero margin.
\<close>

theorem class_k_counterexample:
  "class_k_fn (PositionCBF_init ''tool'' None (Some [0, 0, 0]) (Some [1, 1, 1]) 1) [0, 0, 0] = 1 \<and>
   class_k_fn (PositionCBF_init ''tool'' None (Some [0, 0, 0]) (Some [1, 1, 1]) 1) [0, 0, 0] \<noteq> 0 \<and>
   class_k_fn (PositionCBF_init ''tool'' None (Some [0, 0, 0]) (Some [1, 1, 1]) 1) [1, 0, 0] = 1 / 2 \<and>
   \<not> class_k_fn (PositionCBF_init ''tool'' None (Some [0, 0, 0]) (Some [1, 1, 1]) 1) [0, 0, 0]
        \<le> class_k_fn (PositionCBF_init ''tool'' None (Some [0, 0, 0]) (Some [1, 1, 1]) 1) [1, 0, 0]"
  by (simp add: PositionCBF_init_def np_linalg_norm_def)

text \<open>
  C8 (amended). Computing the error, the task dynamics (Jacobian and scaled error) or
  the QP objective changes no attribute of the task other than \<open>error_in_body\<close>, the
  cache of the last error: body, cost, gain, damping and target are as before. A second
  call on the same robot, on the task as the first call left it, returns the same
  outcome and leaves the task in the same state.
\<close>

theorem task_state_frame:
  "(snd (compute_error_in_body bbm self robot))\<lparr>error_in_body := error_in_body self\<rparr> = self \<and>
   (snd (compute_task_dynamics bbm self robot))\<lparr>error_in_body := error_in_body self\<rparr> = self \<and>
   (snd (compute_qp_objective bbm self robot))\<lparr>error_in_body := error_in_body self\<rparr> = self \<and>
   compute_error_in_body bbm (snd (compute_error_in_body bbm self robot)) robot =
     compute_error_in_body bbm self robot \<and>
   compute_task_dynamics bbm (snd (compute_task_dynamics bbm self robot)) robot =
     compute_task_dynamics bbm self robot \<and>
   compute_qp_objective bbm (snd (compute_qp_objective bbm self robot)) robot =
     compute_qp_objective bbm self robot"
proof (intro conjI)
  show "(snd (compute_error_in_body bbm self robot))\<lparr>error_in_body := error_in_body self\<rparr> = self"
    by (rule compute_error_in_body_frame)
  show "(snd (compute_task_dynamics bbm self robot))\<lparr>error_in_body := error_in_body self\<rparr> = self"
    by (simp only: compute_task_dynamics_state compute_error_in_body_frame)
  show "(snd (compute_qp_objective bbm self robot))\<lparr>error_in_body := error_in_body self\<rparr> = self"
    by (simp only: compute_qp_objective_state compute_error_in_body_frame)
  show "compute_error_in_body bbm (snd (compute_error_in_body bbm self robot)) robot =
      compute_error_in_body bbm self robot"
    by (rule compute_error_in_body_again)
  show "compute_task_dynamics bbm (snd (compute_task_dynamics bbm self robot)) robot =
      compute_task_dynamics bbm self robot"
    by (rule compute_task_dynamics_again)
  show "compute_qp_objective bbm (snd (compute_qp_objective bbm self robot)) robot =
      compute_qp_objective bbm self robot"
    by (rule compute_qp_objective_again)
qed

theorem task_state_frame_witness:
  "snd (compute_qp_objective (\<lambda>a b. [real a - real b, 0, 0, 0, 0, 0])
     \<lparr>body = ''ee_link'', cost = [1, 1, 1, 1, 1, 1], error_in_body = [0, 0, 0, 0, 0, 0],
      lm_damping = 0, transform_target_to_world = Some (5 :: nat), gain = 1\<rparr>
     \<lparr>robot_nv = 1, get_transform_body_to_world = (\<lambda>b. 3),
      get_body_jacobian = (\<lambda>b. np_eye 1)\<rparr>)
   = \<lparr>body = ''ee_link'', cost = [1, 1, 1, 1, 1, 1], error_in_body = [- 2, 0, 0, 0, 0, 0],
      lm_damping = 0, transform_target_to_world = Some 5, gain = 1\<rparr> \<and>
   compute_qp_objective (\<lambda>a b. [real a - real b, 0, 0, 0, 0, 0])
     (snd (compute_qp_objective (\<lambda>a b. [real a - real b, 0, 0, 0, 0, 0])
        \<lparr>body = ''ee_link'', cost = [1, 1, 1, 1, 1, 1], error_in_body = [0, 0, 0, 0, 0, 0],
         lm_damping = 0, transform_target_to_world = Some (5 :: nat), gain = 1\<rparr>
        \<lparr>robot_nv = 1, get_transform_body_to_world = (\<lambda>b. 3),
         get_body_jacobian = (\<lambda>b. np_eye 1)\<rparr>))
     \<lparr>robot_nv = 1, get_transform_body_to_world = (\<lambda>b. 3),
      get_body_jacobian = (\<lambda>b. np_eye 1)\<rparr>
   = compute_qp_objective (\<lambda>a b. [real a - real b, 0, 0, 0, 0, 0])
       \<lparr>body = ''ee_link'', cost = [1, 1, 1, 1, 1, 1], error_in_body = [0, 0, 0, 0, 0, 0],
        lm_damping = 0, transform_target_to_world = Some (5 :: nat), gain = 1\<rparr>
       \<lparr>robot_nv = 1, get_transform_body_to_world = (\<lambda>b. 3),
        get_body_jacobian = (\<lambda>b. np_eye 1)\<rparr>"
proof -
  let ?task = "\<lparr>body = ''ee_link'', cost = [1, 1, 1, 1, 1, 1], error_in_body = [0, 0, 0, 0, 0, 0],
      lm_damping = 0, transform_target_to_world = Some (5 :: nat), gain = 1\<rparr>"
  let ?robot = "\<lparr>robot_nv = 1, get_transform_body_to_world = (\<lambda>b. 3 :: nat),
      get_body_jacobian = (\<lambda>b. np_eye 1)\<rparr>"
  have "snd (compute_qp_objective (\<lambda>a b. [real a - real b, 0, 0, 0, 0, 0]) ?task ?robot)
      = ?task\<lparr>error_in_body := [- 2, 0, 0, 0, 0, 0]\<rparr>"
    by (simp add: compute_qp_objective_state compute_error_in_body_def np_negative_def Let_def)
  then show ?thesis
    using task_state_frame [where bbm = "\<lambda>a b. [real a - real b, 0, 0, 0, 0, 0]"
        and self = ?task and robot = ?robot]
    by simp
qed

text \<open>
  The claim as stated fails: the computation assigns \<open>self.error_in_body\<close>, so the task
  after the call differs from the task before it.
\<close>

theorem task_state_counterexample:
  "snd (compute_error_in_body (\<lambda>a b. [real a - real b, 0, 0, 0, 0, 0])
     \<lparr>body = ''ee_link'', cost = [1, 1, 1, 1, 1, 1], error_in_body = [0, 0, 0, 0, 0, 0],
      lm_damping = 0, transform_target_to_world = Some (5 :: nat), gain = 1\<rparr>
     \<lparr>robot_nv = 1, get_transform_body_to_world = (\<lambda>b. 3),
      get_body_jacobian = (\<lambda>b. np_eye 1)\<rparr>)
   \<noteq> \<lparr>body = ''ee_link'', cost = [1, 1, 1, 1, 1, 1], error_in_body = [0, 0, 0, 0, 0, 0],
      lm_damping = 0, transform_target_to_world = Some 5, gain = 1\<rparr>"
  by (simp add: compute_error_in_body_def np_negative_def Let_def)

text \<open>
  C9. \<open>DampingTask.compute_error\<close> returns the zero vector of dimension \<open>nv\<close> minus the
  root joint's \<open>nv\<close>, for every configuration whose root joint has no more tangent
  coordinates than the model (the root joint is one of the model's joints).
\<close>

theorem damping_error_zero:
  "snd (get_root_joint_dim (model configuration)) \<le> model_nv (model configuration) \<Longrightarrow>
   DampingTask_compute_error get_root_joint_dim self configuration =
     Inr (replicate (model_nv (model configuration)
            - snd (get_root_joint_dim (model configuration))) 0)"
  by (cases "get_root_joint_dim (model configuration)")
    (auto simp: DampingTask_compute_error_def np_zeros_def)

theorem damping_error_zero_witness:
  "DampingTask_compute_error (\<lambda>m. (7, 6)) ()
     \<lparr>model = \<lparr>model_nv = 8, model_joints = [], upperPositionLimit = [],
                lowerPositionLimit = [], velocityLimit = []\<rparr>,
      get_transform_frame_to_world_translation = (\<lambda>f. [0, 0, 0]),
      get_frame_jacobian = (\<lambda>f. np_eye 6)\<rparr> = Inr [0, 0]"
  using damping_error_zero [of "\<lambda>m. (7, 6)"
      "\<lparr>model = \<lparr>model_nv = 8, model_joints = [], upperPositionLimit = [],
                lowerPositionLimit = [], velocityLimit = []\<rparr>,
        get_transform_frame_to_world_translation = (\<lambda>f. [0, 0, 0]),
        get_frame_jacobian = (\<lambda>f. np_eye 6)\<rparr>" "()"]
  by (simp add: numeral_eq_Suc)

text \<open>
  C2. The position barrier as the code computes it. With only the upper bound set,
  \<open>compute_barrier\<close> raises \<open>TypeError\<close> (it subtracts the unset lower bound), and
  \<open>compute_jacobian\<close> returns the position Jacobian and its negation side by side, a
  3-by-2n array. With both bounds set the barrier is the stacked vector, the Jacobian
  is again 3-by-2n rather than 6-by-n, and a mask changes nothing: all six entries are
  returned.
\<close>

theorem position_barrier_unset_bound:
  "compute_barrier (PositionCBF_init ''tool'' None None (Some [1, 1, 1]) 1)
     \<lparr>model = m, get_transform_frame_to_world_translation = (\<lambda>f. [0, 0, 0]),
      get_frame_jacobian = (\<lambda>f. \<lparr>nrows = 6, ncols = 1, rows = [[1], [2], [3], [4], [5], [6]]\<rparr>)\<rparr>
     = Inl TypeError \<and>
   compute_jacobian (PositionCBF_init ''tool'' None None (Some [1, 1, 1]) 1)
     \<lparr>model = m, get_transform_frame_to_world_translation = (\<lambda>f. [0, 0, 0]),
      get_frame_jacobian = (\<lambda>f. \<lparr>nrows = 6, ncols = 1, rows = [[1], [2], [3], [4], [5], [6]]\<rparr>)\<rparr>
     = Inr \<lparr>nrows = 3, ncols = 2, rows = [[1, - 1], [2, - 2], [3, - 3]]\<rparr> \<and>
   compute_barrier (PositionCBF_init ''tool'' None (Some [0, 0, 0]) (Some [1, 1, 1]) 1)
     \<lparr>model = m, get_transform_frame_to_world_translation = (\<lambda>f. [1 / 2, 0, 0]),
      get_frame_jacobian = (\<lambda>f. \<lparr>nrows = 6, ncols = 1, rows = [[1], [2], [3], [4], [5], [6]]\<rparr>)\<rparr>
     = Inr [1 / 2, 0, 0, 1 / 2, 1, 1] \<and>
   compute_jacobian (PositionCBF_init ''tool'' None (Some [0, 0, 0]) (Some [1, 1, 1]) 1)
     \<lparr>model = m, get_transform_frame_to_world_translation = (\<lambda>f. [1 / 2, 0, 0]),
      get_frame_jacobian = (\<lambda>f. \<lparr>nrows = 6, ncols = 1, rows = [[1], [2], [3], [4], [5], [6]]\<rparr>)\<rparr>
     = Inr \<lparr>nrows = 3, ncols = 2, rows = [[1, - 1], [2, - 2], [3, - 3]]\<rparr> \<and>
   compute_barrier
     (PositionCBF_init ''tool'' (Some [True, False, True]) (Some [0, 0, 0]) (Some [1, 1, 1]) 1)
     \<lparr>model = m, get_transform_frame_to_world_translation = (\<lambda>f. [1 / 2, 0, 0]),
      get_frame_jacobian = (\<lambda>f. \<lparr>nrows = 6, ncols = 1, rows = [[1], [2], [3], [4], [5], [6]]\<rparr>)\<rparr>
     = Inr [1 / 2, 0, 0, 1 / 2, 1, 1]"
  by (simp add: compute_barrier_def compute_jacobian_def PositionCBF_init_def
      builtin_is_not_None_def np_subtract_def np_elementwise_def np_concatenate_def and_then_def
      np_first_rows_def np_negative2d_def np_hstack_def array2d_of_def entry_def
      upt_conv_Cons)

text \<open>
  C1. For a task as the constructor and the setters leave it, with a target set, on a
  robot whose body Jacobian \<open>J\<close> is 6-by-nv and whose pose difference has six entries (so
  that the error \<open>e\<close> has), \<open>compute_qp_objective\<close> returns the nv-by-nv array with the
  entries of \<open>H = Jw\<^sup>T Jw + \<mu> I\<close> and the vector with the entries of \<open>c = - ew\<^sup>T Jw\<close>, where
  \<open>Jw = diag(cost) J\<close>, \<open>ew = diag(cost) (gain e)\<close> and \<open>\<mu> = lm_damping (ew\<^sup>T ew)\<close>.
\<close>

theorem qp_objective_formula:
  assumes "constructed self"
    and "transform_target_to_world self = Some target"
    and "nrows (get_body_jacobian robot (body self)) = 6"
    and "ncols (get_body_jacobian robot (body self)) = robot_nv robot"
    and "length (bbm target (get_transform_body_to_world robot (body self))) = 6"
  shows "fst (compute_qp_objective bbm self robot) =
     Inr (array2d_of (robot_nv robot) (robot_nv robot)
            (spec_H (lm_damping self) (cost self) (gain self)
               (get_body_jacobian robot (body self))
               (np_negative (bbm target (get_transform_body_to_world robot (body self))))),
          map (spec_c (cost self) (gain self)
                 (get_body_jacobian robot (body self))
                 (np_negative (bbm target (get_transform_body_to_world robot (body self)))))
            [0..<robot_nv robot])"
  using compute_qp_objective_eq [where bbm = bbm and self = self and robot = robot
      and target = target, OF assms(2) constructed_cost [OF assms(1)] assms(3,4,5)]
  by (simp add: Let_def)

theorem qp_objective_formula_witness:
  "fst (compute_qp_objective (\<lambda>a b. [real a - real b, 0, 0, 0, 0, 0])
     \<lparr>body = ''ee_link'', cost = [1, 1, 1, 1, 0, 2], error_in_body = [0, 0, 0, 0, 0, 0],
      lm_damping = 1 / 4, transform_target_to_world = Some (5 :: nat), gain = 1 / 2\<rparr>
     \<lparr>robot_nv = 2, get_transform_body_to_world = (\<lambda>b. 3),
      get_body_jacobian = (\<lambda>b. \<lparr>nrows = 6, ncols = 2,
         rows = [[1, 0], [0, 1], [0, 0], [0, 0], [0, 0], [1, 1]]\<rparr>)\<rparr>)
   = Inr (\<lparr>nrows = 2, ncols = 2, rows = [[21 / 4, 4], [4, 21 / 4]]\<rparr>, [1, 0])"
proof -
  let ?fresh = "\<lparr>body = ''ee_link'', cost = [1, 1, 1, 1, 0, 2], error_in_body = [0, 0, 0, 0, 0, 0],
      lm_damping = 1 / 4, transform_target_to_world = (None :: nat option), gain = 1 / 2\<rparr>"
  let ?task = "\<lparr>body = ''ee_link'', cost = [1, 1, 1, 1, 0, 2], error_in_body = [0, 0, 0, 0, 0, 0],
      lm_damping = 1 / 4, transform_target_to_world = Some (5 :: nat), gain = 1 / 2\<rparr>"
  let ?J = "\<lparr>nrows = 6, ncols = 2, rows = [[1, 0], [0, 1], [0, 0], [0, 0], [0, 0], [1, 1]]\<rparr>"
  let ?r = "\<lparr>robot_nv = 2, get_transform_body_to_world = (\<lambda>b. 3 :: nat),
      get_body_jacobian = (\<lambda>b. ?J)\<rparr>"
  have init: "BodyTask_init ''ee_link'' (Scalar 1) (Sequence [1, 0, 2]) (1 / 4) (1 / 2) = Inr ?fresh"
    by code_simp
  have "constructed (set_target ?fresh 5)"
    by (rule constructed.target_set) (rule constructed.fresh [OF init])
  then have c: "constructed ?task"
    by (simp add: set_target_def)
  have H: "array2d_of 2 2 (spec_H (1 / 4) [1, 1, 1, 1, 0, 2] (1 / 2) ?J [- 2, 0, 0, 0, 0, 0])
      = \<lparr>nrows = 2, ncols = 2, rows = [[21 / 4, 4], [4, 21 / 4]]\<rparr>"
    by code_simp
  have cc: "map (spec_c [1, 1, 1, 1, 0, 2] (1 / 2) ?J [- 2, 0, 0, 0, 0, 0]) [0..<2] = [1, 0]"
    by code_simp
  show ?thesis
    using qp_objective_formula [of ?task 5 ?r "\<lambda>a b. [real a - real b, 0, 0, 0, 0, 0]", OF c]
    by (simp add: np_negative_def H cc)
qed

text \<open>
  C4 (amended). For a task as the constructor and the setters leave it (its cost inputs
  passed the assertions), with a damping \<open>lm_damping \<ge> 0\<close> and a target set, on a robot
  whose body Jacobian is 6-by-nv, \<open>compute_qp_objective\<close> returns a matrix \<open>H\<close> that is
  symmetric and positive semidefinite.
\<close>

theorem hessian_symmetric_psd:
  assumes "constructed self"
    and "0 \<le> lm_damping self"
    and "transform_target_to_world self = Some target"
    and "nrows (get_body_jacobian robot (body self)) = 6"
    and "ncols (get_body_jacobian robot (body self)) = robot_nv robot"
    and "length (bbm target (get_transform_body_to_world robot (body self))) = 6"
  shows "\<exists>H c. fst (compute_qp_objective bbm self robot) = Inr (H, c) \<and>
           symmetric H \<and> positive_semidefinite H"
  using compute_qp_objective_eq [where bbm = bbm and self = self and robot = robot
      and target = target, OF assms(3) constructed_cost [OF assms(1)] assms(4,5,6)]
    spec_H_symmetric spec_H_psd [OF assms(2)]
  by (simp add: Let_def)

theorem hessian_symmetric_psd_witness:
  "\<exists>H c. fst (compute_qp_objective (\<lambda>a b. [real a - real b, 0, 0, 0, 0, 0])
     \<lparr>body = ''ee_link'', cost = [1, 1, 1, 1, 0, 2], error_in_body = [0, 0, 0, 0, 0, 0],
      lm_damping = 1 / 4, transform_target_to_world = Some (5 :: nat), gain = 1 / 2\<rparr>
     \<lparr>robot_nv = 2, get_transform_body_to_world = (\<lambda>b. 3),
      get_body_jacobian = (\<lambda>b. \<lparr>nrows = 6, ncols = 2,
         rows = [[1, 0], [0, 1], [0, 0], [0, 0], [0, 0], [1, 1]]\<rparr>)\<rparr>) = Inr (H, c) \<and>
     symmetric H \<and> positive_semidefinite H"
proof -
  let ?fresh = "\<lparr>body = ''ee_link'', cost = [1, 1, 1, 1, 0, 2], error_in_body = [0, 0, 0, 0, 0, 0],
      lm_damping = 1 / 4, transform_target_to_world = (None :: nat option), gain = 1 / 2\<rparr>"
  let ?task = "\<lparr>body = ''ee_link'', cost = [1, 1, 1, 1, 0, 2], error_in_body = [0, 0, 0, 0, 0, 0],
      lm_damping = 1 / 4, transform_target_to_world = Some (5 :: nat), gain = 1 / 2\<rparr>"
  let ?r = "\<lparr>robot_nv = 2, get_transform_body_to_world = (\<lambda>b. 3 :: nat),
      get_body_jacobian = (\<lambda>b. \<lparr>nrows = 6, ncols = 2,
         rows = [[1, 0], [0, 1], [0, 0], [0, 0], [0, 0], [1, 1]]\<rparr>)\<rparr>"
  have init: "BodyTask_init ''ee_link'' (Scalar 1) (Sequence [1, 0, 2]) (1 / 4) (1 / 2) = Inr ?fresh"
    by code_simp
  have "constructed (set_target ?fresh 5)"
    by (rule constructed.target_set) (rule constructed.fresh [OF init])
  then have c: "constructed ?task"
    by (simp add: set_target_def)
  show ?thesis
    using hessian_symmetric_psd [of ?task 5 ?r "\<lambda>a b. [real a - real b, 0, 0, 0, 0, 0]", OF c]
    by simp
qed

text \<open>
  The claim as stated fails for a negative damping, which the constructor accepts: with
  costs 1, damping -1, a zero Jacobian and a nonzero error, \<open>H\<close> is the 1-by-1 array
  \<open>[[-1]]\<close>.
\<close>

theorem hessian_negative_damping_counterexample:
  "BodyTask_init ''ee_link'' (Scalar 1) (Scalar 1) (- 1) 1 =
     Inr \<lparr>body = ''ee_link'', cost = [1, 1, 1, 1, 1, 1], error_in_body = [0, 0, 0, 0, 0, 0],
          lm_damping = - 1, transform_target_to_world = (None :: nat option), gain = 1\<rparr> \<and>
   fst (compute_qp_objective (\<lambda>a b. [real a - real b, 0, 0, 0, 0, 0])
     (set_target
        \<lparr>body = ''ee_link'', cost = [1, 1, 1, 1, 1, 1], error_in_body = [0, 0, 0, 0, 0, 0],
         lm_damping = - 1, transform_target_to_world = None, gain = 1\<rparr> 4)
     \<lparr>robot_nv = 1, get_transform_body_to_world = (\<lambda>b. 3),
      get_body_jacobian = (\<lambda>b. \<lparr>nrows = 6, ncols = 1,
         rows = [[0], [0], [0], [0], [0], [0]]\<rparr>)\<rparr>)
   = Inr (\<lparr>nrows = 1, ncols = 1, rows = [[- 1]]\<rparr>, [0]) \<and>
   \<not> positive_semidefinite \<lparr>nrows = 1, ncols = 1, rows = [[- 1]]\<rparr>"
proof (intro conjI)
  show "BodyTask_init ''ee_link'' (Scalar 1) (Scalar 1) (- 1) 1 =
     Inr \<lparr>body = ''ee_link'', cost = [1, 1, 1, 1, 1, 1], error_in_body = [0, 0, 0, 0, 0, 0],
          lm_damping = - 1, transform_target_to_world = (None :: nat option), gain = 1\<rparr>"
    by code_simp
  show "fst (compute_qp_objective (\<lambda>a b. [real a - real b, 0, 0, 0, 0, 0])
     (set_target
        \<lparr>body = ''ee_link'', cost = [1, 1, 1, 1, 1, 1], error_in_body = [0, 0, 0, 0, 0, 0],
         lm_damping = - 1, transform_target_to_world = None, gain = 1\<rparr> (4 :: nat))
     \<lparr>robot_nv = 1, get_transform_body_to_world = (\<lambda>b. 3),
      get_body_jacobian = (\<lambda>b. \<lparr>nrows = 6, ncols = 1,
         rows = [[0], [0], [0], [0], [0], [0]]\<rparr>)\<rparr>)
   = Inr (\<lparr>nrows = 1, ncols = 1, rows = [[- 1]]\<rparr>, [0])"
    by code_simp
  have "quadratic_form \<lparr>nrows = 1, ncols = 1, rows = [[- 1]]\<rparr> [1] = - 1"
    by (simp add: quadratic_form_def entry_def)
  then have "\<exists>x. length x = nrows \<lparr>nrows = 1, ncols = 1, rows = [[- 1 :: real]]\<rparr> \<and>
      \<not> 0 \<le> quadratic_form \<lparr>nrows = 1, ncols = 1, rows = [[- 1]]\<rparr> x"
    by (intro exI [of _ "[1]"]) simp
  then show "\<not> positive_semidefinite \<lparr>nrows = 1, ncols = 1, rows = [[- 1]]\<rparr>"
    by (simp add: positive_semidefinite_def)
qed

text \<open>
  C3 (amended). For every well-formed robot model the constructor of the bounded tangent
  space succeeds. It keeps, in the model's order, the joints with a non-negative \<open>idx_q\<close>
  whose configuration coordinates all have an upper position limit below \<open>1e20\<close> and
  above the lower limit plus \<open>1e-10\<close>; the index list is the concatenation, in joint
  order, of the kept joints' tangent-space index ranges, and \<open>dim\<close> is its length; the
  projection matrix is made of the rows of the identity of size \<open>nv\<close> at those indices,
  and is \<open>None\<close> when no joint is kept; the velocity limit is the model's velocity limit
  at those indices, and is \<open>None\<close> when no joint is kept.
\<close>

theorem bounded_tangent_constructor:
  assumes "well_formed_model mdl"
  shows "\<exists>b. BoundedTangent_init mdl = Inr b \<and>
     joints b = filter (joint_eligible mdl) (model_joints mdl) \<and>
     indices b = tangent_indices (joints b) \<and>
     dim b = length (indices b) \<and>
     projection_matrix b =
       (if joints b = [] then None else Some (identity_rows (model_nv mdl) (indices b))) \<and>
     velocity_limit b =
       (if joints b = [] then None
        else Some (map (\<lambda>i. velocityLimit mdl ! nat i) (indices b)))"
  using BoundedTangent_init_eq [OF assms] by (simp add: Let_def)

theorem bounded_tangent_constructor_witness:
  "well_formed_model
     \<lparr>model_nv = 4,
      model_joints =
        [\<lparr>idx_q = - 1, nq = 0, idx_v = - 1, nv = 0\<rparr>,
         \<lparr>idx_q = 0, nq = 1, idx_v = 0, nv = 1\<rparr>,
         \<lparr>idx_q = 1, nq = 1, idx_v = 1, nv = 1\<rparr>,
         \<lparr>idx_q = 2, nq = 1, idx_v = 2, nv = 1\<rparr>,
         \<lparr>idx_q = 3, nq = 1, idx_v = 3, nv = 1\<rparr>],
      upperPositionLimit = [Finite (1 / 2), Finite (1 / 10 ^ 12), PosInf, Finite 2],
      lowerPositionLimit = [Finite (- 1 / 2), Finite 0, NegInf, Finite 0],
      velocityLimit = [Finite 1, Finite 2, Finite 3, Finite 4]\<rparr> \<and>
   (\<exists>b. BoundedTangent_init
     \<lparr>model_nv = 4,
      model_joints =
        [\<lparr>idx_q = - 1, nq = 0, idx_v = - 1, nv = 0\<rparr>,
         \<lparr>idx_q = 0, nq = 1, idx_v = 0, nv = 1\<rparr>,
         \<lparr>idx_q = 1, nq = 1, idx_v = 1, nv = 1\<rparr>,
         \<lparr>idx_q = 2, nq = 1, idx_v = 2, nv = 1\<rparr>,
         \<lparr>idx_q = 3, nq = 1, idx_v = 3, nv = 1\<rparr>],
      upperPositionLimit = [Finite (1 / 2), Finite (1 / 10 ^ 12), PosInf, Finite 2],
      lowerPositionLimit = [Finite (- 1 / 2), Finite 0, NegInf, Finite 0],
      velocityLimit = [Finite 1, Finite 2, Finite 3, Finite 4]\<rparr> = Inr b \<and>
      joints b = [\<lparr>idx_q = 0, nq = 1, idx_v = 0, nv = 1\<rparr>,
                  \<lparr>idx_q = 3, nq = 1, idx_v = 3, nv = 1\<rparr>] \<and>
      indices b = [0, 3] \<and>
      dim b = 2 \<and>
      projection_matrix b =
        Some \<lparr>nrows = 2, ncols = 4, rows = [[1, 0, 0, 0], [0, 0, 0, 1]]\<rparr> \<and>
      velocity_limit b = Some [Finite 1, Finite 4])"
proof -
  let ?m = "\<lparr>model_nv = 4,
      model_joints =
        [\<lparr>idx_q = - 1, nq = 0, idx_v = - 1, nv = 0\<rparr>,
         \<lparr>idx_q = 0, nq = 1, idx_v = 0, nv = 1\<rparr>,
         \<lparr>idx_q = 1, nq = 1, idx_v = 1, nv = 1\<rparr>,
         \<lparr>idx_q = 2, nq = 1, idx_v = 2, nv = 1\<rparr>,
         \<lparr>idx_q = 3, nq = 1, idx_v = 3, nv = 1\<rparr>],
      upperPositionLimit = [Finite (1 / 2), Finite (1 / 10 ^ 12), PosInf, Finite 2],
      lowerPositionLimit = [Finite (- 1 / 2), Finite 0, NegInf, Finite 0],
      velocityLimit = [Finite 1, Finite 2, Finite 3, Finite 4]\<rparr>"
  have wf: "well_formed_model ?m"
    by code_simp
  have js: "filter (joint_eligible ?m) (model_joints ?m) =
      [\<lparr>idx_q = 0, nq = 1, idx_v = 0, nv = 1\<rparr>, \<lparr>idx_q = 3, nq = 1, idx_v = 3, nv = 1\<rparr>]"
    by code_simp
  have idx: "tangent_indices
      [\<lparr>idx_q = 0, nq = 1, idx_v = 0, nv = 1\<rparr>, \<lparr>idx_q = 3, nq = 1, idx_v = 3, nv = 1\<rparr>] = [0, 3]"
    by code_simp
  have pm: "identity_rows 4 [0, 3] = \<lparr>nrows = 2, ncols = 4, rows = [[1, 0, 0, 0], [0, 0, 0, 1]]\<rparr>"
    by code_simp
  from bounded_tangent_constructor [OF wf] obtain b where
    b: "BoundedTangent_init ?m = Inr b"
      "joints b = filter (joint_eligible ?m) (model_joints ?m)"
      "indices b = tangent_indices (joints b)"
      "dim b = length (indices b)"
      "projection_matrix b =
         (if joints b = [] then None else Some (identity_rows (model_nv ?m) (indices b)))"
      "velocity_limit b =
         (if joints b = [] then None else Some (map (\<lambda>i. velocityLimit ?m ! nat i) (indices b)))"
    by blast
  have "joints b = [\<lparr>idx_q = 0, nq = 1, idx_v = 0, nv = 1\<rparr>, \<lparr>idx_q = 3, nq = 1, idx_v = 3, nv = 1\<rparr>]"
    using b(2) js by simp
  moreover from this have "indices b = [0, 3]"
    using b(3) idx by simp
  moreover from this have "dim b = 2"
    using b(4) by simp
  moreover have "projection_matrix b =
      Some \<lparr>nrows = 2, ncols = 4, rows = [[1, 0, 0, 0], [0, 0, 0, 1]]\<rparr>"
    using b(5) calculation(1,2) pm by simp
  moreover have "velocity_limit b = Some [Finite 1, Finite 4]"
    using b(6) calculation(1,2) by simp
  ultimately show ?thesis
    using wf b(1) by blast
qed

text \<open>
  The claim as stated fails. A joint whose only coordinate has the finite upper limit
  \<open>1e20\<close> and the lower limit 0 passes the test the claim states (finite upper limit,
  width above the epsilon), and so does, vacuously, the universe joint, which has
  \<open>idx_q = -1\<close> and no coordinate; the constructor keeps neither, and the velocity limit
  is \<open>None\<close>.
\<close>

theorem bounded_tangent_counterexample:
  "spec_joint_eligible
     \<lparr>model_nv = 1,
      model_joints = [\<lparr>idx_q = - 1, nq = 0, idx_v = - 1, nv = 0\<rparr>,
                      \<lparr>idx_q = 0, nq = 1, idx_v = 0, nv = 1\<rparr>],
      upperPositionLimit = [Finite (10 ^ 20)], lowerPositionLimit = [Finite 0],
      velocityLimit = [Finite 1]\<rparr>
     \<lparr>idx_q = 0, nq = 1, idx_v = 0, nv = 1\<rparr> \<and>
   spec_joint_eligible
     \<lparr>model_nv = 1,
      model_joints = [\<lparr>idx_q = - 1, nq = 0, idx_v = - 1, nv = 0\<rparr>,
                      \<lparr>idx_q = 0, nq = 1, idx_v = 0, nv = 1\<rparr>],
      upperPositionLimit = [Finite (10 ^ 20)], lowerPositionLimit = [Finite 0],
      velocityLimit = [Finite 1]\<rparr>
     \<lparr>idx_q = - 1, nq = 0, idx_v = - 1, nv = 0\<rparr> \<and>
   BoundedTangent_init
     \<lparr>model_nv = 1,
      model_joints = [\<lparr>idx_q = - 1, nq = 0, idx_v = - 1, nv = 0\<rparr>,
                      \<lparr>idx_q = 0, nq = 1, idx_v = 0, nv = 1\<rparr>],
      upperPositionLimit = [Finite (10 ^ 20)], lowerPositionLimit = [Finite 0],
      velocityLimit = [Finite 1]\<rparr>
   = Inr \<lparr>dim = 0, indices = [], joints = [], projection_matrix = None,
          velocity_limit = None\<rparr>"
  by code_simp

text \<open>
  C5. \<open>project\<close> on the bounded tangent space of a model with no bounded joint: the
  constructor leaves \<open>indices = np.array([])\<close>, and \<open>project\<close> on a vector of the right
  length raises \<open>IndexError\<close> instead of returning the empty sub-vector.
\<close>

theorem project_empty_subspace:
  "BoundedTangent_init
     \<lparr>model_nv = 1,
      model_joints = [\<lparr>idx_q = - 1, nq = 0, idx_v = - 1, nv = 0\<rparr>,
                      \<lparr>idx_q = 0, nq = 1, idx_v = 0, nv = 1\<rparr>],
      upperPositionLimit = [PosInf], lowerPositionLimit = [NegInf],
      velocityLimit = [Finite 1]\<rparr>
   = Inr \<lparr>dim = 0, indices = [], joints = [], projection_matrix = None,
          velocity_limit = None\<rparr> \<and>
   project 1
     \<lparr>dim = 0, indices = [], joints = [], projection_matrix = None, velocity_limit = None\<rparr>
     [1 / 2] = Inl IndexError"
  by code_simp

end
